theory Spec2Isabelle
  imports Complex_Main "HOL-Library.Sublist" "HOL-Library.Multiset"
begin

section \<open>Strings\<close>

text \<open>
  JavaScript strings are modelled as \<^typ>\<open>string\<close>. \<open>toLowerCase\<close> maps the letters
  \<open>A\<close>..\<open>Z\<close> to \<open>a\<close>..\<open>z\<close> and leaves every other character alone, which is
  what \<open>String.prototype.toLowerCase\<close> does on ASCII text. \<open>includesStr\<close> is
  \<open>String.prototype.includesStr\<close>: the needle occurs as a contiguous substring.
\<close>

definition toLowerChar :: "char \<Rightarrow> char" where
  "toLowerChar c =
     (let n = (of_char c :: nat) in if 65 \<le> n \<and> n \<le> 90 then char_of (n + 32) else c)"

definition toLowerCase :: "string \<Rightarrow> string" where
  "toLowerCase s = map toLowerChar s"

fun startsWith :: "string \<Rightarrow> string \<Rightarrow> bool" where
  "startsWith s [] = True"
| "startsWith [] (k # ks) = False"
| "startsWith (c # cs) (k # ks) = (c = k \<and> startsWith cs ks)"

fun includesStr :: "string \<Rightarrow> string \<Rightarrow> bool" where
  "includesStr [] k = (k = [])"
| "includesStr (c # cs) k = (startsWith (c # cs) k \<or> includesStr cs k)"

section \<open>Segment classification\<close>

datatype segment = dine | listen | see | explore

record tag =
  tag_name :: string
  tag_type :: string

definition dineKeywords :: "string list" where
  "dineKeywords = [''restaurant'', ''hotel'', ''bar'', ''cafe'', ''dining'', ''food'']"

definition listenKeywords :: "string list" where
  "listenKeywords = [''music'', ''concert'', ''record'', ''jazz'']"

definition seeKeywords :: "string list" where
  "seeKeywords = [''museum'', ''art'', ''gallery'', ''theatre'', ''view'', ''landmark'']"

text \<open>
  \<open>mapTagsToSegment\<close> of the source: the tag names are lower-cased, then the three
  \<open>some\<close> tests run in the order dine, listen, see. The disjunctions of \<open>includes\<close>
  calls of each test are written out as in the source.
\<close>

definition mapTagsToSegment :: "tag list \<Rightarrow> segment" where
  "mapTagsToSegment tags =
     (let tagNames = map (\<lambda>t. toLowerCase (tag_name t)) tags in
      if list_ex (\<lambda>t. includesStr t ''restaurant'' \<or> includesStr t ''hotel'' \<or> includesStr t ''bar''
                      \<or> includesStr t ''cafe'' \<or> includesStr t ''dining'' \<or> includesStr t ''food'') tagNames
      then dine
      else if list_ex (\<lambda>t. includesStr t ''music'' \<or> includesStr t ''concert'' \<or> includesStr t ''record''
                      \<or> includesStr t ''jazz'') tagNames
      then listen
      else if list_ex (\<lambda>t. includesStr t ''museum'' \<or> includesStr t ''art'' \<or> includesStr t ''gallery''
                      \<or> includesStr t ''theatre'' \<or> includesStr t ''view'' \<or> includesStr t ''landmark'') tagNames
      then see
      else explore)"

text \<open>The classification as the specification words it: a tag matches a keyword list
  when its lower-cased name contains one of the keywords.\<close>

definition matchesAny :: "string list \<Rightarrow> tag list \<Rightarrow> bool" where
  "matchesAny kws tags =
     list_ex (\<lambda>t. list_ex (\<lambda>k. includesStr (toLowerCase (tag_name t)) k) kws) tags"

definition classifyByPriority :: "tag list \<Rightarrow> segment" where
  "classifyByPriority tags =
     (if matchesAny dineKeywords tags then dine
      else if matchesAny listenKeywords tags then listen
      else if matchesAny seeKeywords tags then see
      else explore)"

definition mkTag :: "string \<Rightarrow> tag" where
  "mkTag n = \<lparr>tag_name = n, tag_type = ''urn:tag:genre''\<rparr>"

section \<open>Data model\<close>

text \<open>
  Numbers are JavaScript doubles in the source; they are modelled as \<^typ>\<open>real\<close>, so
  rounding is not part of the model: what is stated below about numbers is stated of
  the popularity order, of the rank and of the radius, and nothing is stated of the
  values \<open>Math.cos\<close> and \<open>Math.sin\<close> return or of the display point computed from
  them. An optional property (\<open>x?: number\<close>, or a
  property reached through \<open>?.\<close>) is an \<^typ>\<open>'a option\<close>, \<open>None\<close> standing for
  \<open>undefined\<close>.
\<close>

record recommendation =
  rec_id :: string
  rec_name :: string
  category :: string
  rec_image :: string
  insight :: string
  segment :: segment
  website :: "string option"
  rec_x :: "real option"
  rec_y :: "real option"
  latitude :: "real option"
  longitude :: "real option"

record itinerary_item = recommendation +
  day :: nat
  item_notes :: string
  order :: nat

text \<open>
  A raw place entity of the recommendation API, with the properties the mapper reads:
  \<open>entity.properties?.images?.[0]?.url\<close>, \<open>entity.properties?.description\<close>,
  \<open>entity.properties?.website\<close>, \<open>entity.location?.lat\<close> and \<open>entity.location?.lon\<close>
  are each one optional field.
\<close>

record entity =
  entity_id :: string
  entity_name :: string
  entity_tags :: "tag list option"
  popularity :: real
  image_url :: "string option"
  entity_description :: "string option"
  entity_website :: "string option"
  location_lat :: "real option"
  location_lon :: "real option"

section \<open>Recommendation mapper\<close>

definition segmentAngles :: "segment \<Rightarrow> real" where
  "segmentAngles s = (case s of dine \<Rightarrow> 0 | listen \<Rightarrow> 90 | see \<Rightarrow> 180 | explore \<Rightarrow> 270)"

text \<open>The radius line of \<open>getRadarCoordinates\<close>.\<close>

definition radarRadius :: "real \<Rightarrow> real" where
  "radarRadius popularityRank = 25 + ((1 - popularityRank) * 70)"

text \<open>
  \<open>getRadarCoordinates\<close>; the value returned by \<open>Math.random()\<close> is the argument
  \<open>rand\<close>. The pair is the point in exact arithmetic; the doubles the source
  computes for \<open>x\<close> and \<open>y\<close> differ from it by the rounding of \<open>Math.cos\<close>,
  \<open>Math.sin\<close> and of each operation, and no property of the pair is used below.
\<close>

definition getRadarCoordinates :: "segment \<Rightarrow> real \<Rightarrow> real \<Rightarrow> real \<times> real" where
  "getRadarCoordinates seg popularityRank rand =
     (let baseAngle = segmentAngles seg;
          angleJitter = 35;
          angle = baseAngle + (rand * (angleJitter * 2) - angleJitter);
          angleRad = (angle * pi) / 180;
          radius = radarRadius popularityRank;
          x = 100 + cos angleRad * radius;
          y = 100 + sin angleRad * radius
      in (x, y))"

text \<open>\<open>[...entities].sort((a, b) => b.popularity - a.popularity)\<close>: a stable sort,
  larger popularity first.\<close>

definition sortEntities :: "entity list \<Rightarrow> entity list" where
  "sortEntities entities = sort_key (\<lambda>e. - popularity e) entities"

text \<open>The normalized rank computed inside the \<open>map\<close> callback.\<close>

definition popularityRank :: "nat \<Rightarrow> nat \<Rightarrow> real" where
  "popularityRank n index = (if n > 1 then real index / real (n - 1) else 0)"

text \<open>\<open>a || b\<close> on an optional string: the empty string is falsy as well.\<close>

definition orElse :: "string option \<Rightarrow> string \<Rightarrow> string" where
  "orElse v d = (case v of None \<Rightarrow> d | Some s \<Rightarrow> if s = [] then d else s)"

definition entityTags :: "entity \<Rightarrow> tag list" where
  "entityTags e = (case entity_tags e of None \<Rightarrow> [] | Some ts \<Rightarrow> ts)"

definition entityCategory :: "entity \<Rightarrow> string" where
  "entityCategory e =
     orElse (map_option tag_name
               (find (\<lambda>t. startsWith (tag_type t) ''urn:tag:category'') (entityTags e)))
            ''Place''"

definition defaultImage :: string where
  "defaultImage = ''https://images.pexels.com/photos/33545/sunrise-phu-quoc-island-ocean.jpg?auto=compress&cs=tinysrgb&w=400''"

definition defaultInsight :: string where
  "defaultInsight = ''A location tailored to your unique cultural tastes.''"

text \<open>The body of the \<open>map\<close> callback: \<open>n\<close> is \<open>sortedEntities.length\<close>.\<close>

definition mapEntity :: "nat \<Rightarrow> real \<Rightarrow> entity \<Rightarrow> nat \<Rightarrow> recommendation" where
  "mapEntity n rand e index =
     (let seg = mapTagsToSegment (entityTags e);
          rank = popularityRank n index;
          (x, y) = getRadarCoordinates seg rank rand
      in \<lparr>rec_id = entity_id e,
          rec_name = entity_name e,
          category = entityCategory e,
          rec_image = orElse (image_url e) defaultImage,
          insight = orElse (entity_description e) defaultInsight,
          segment = seg,
          website = entity_website e,
          rec_x = Some x,
          rec_y = Some y,
          latitude = location_lat e,
          longitude = location_lon e\<rparr>)"

text \<open>
  The mapping step of \<open>handleGenerateRecommendations\<close>: sort, then map with the index.
  \<open>rand i\<close> is the value \<open>Math.random()\<close> returns in the call for index \<open>i\<close>.
\<close>

definition mappedRecommendations :: "(nat \<Rightarrow> real) \<Rightarrow> entity list \<Rightarrow> recommendation list" where
  "mappedRecommendations rand entities =
     (let sortedEntities = sortEntities entities in
      map (\<lambda>(index, e). mapEntity (length sortedEntities) (rand index) e index)
          (zip [0..<length sortedEntities] sortedEntities))"

definition mkEntity :: "string \<Rightarrow> real \<Rightarrow> string list \<Rightarrow> entity" where
  "mkEntity i p ts =
     \<lparr>entity_id = i, entity_name = i, entity_tags = Some (map mkTag ts), popularity = p,
      image_url = None, entity_description = None, entity_website = None,
      location_lat = None, location_lon = None\<rparr>"

section \<open>Local Store\<close>

record user_preferences =
  pref_destination :: string
  pref_movie :: string
  pref_artist :: string
  pref_author :: string

text \<open>
  Modelled from the spec: the module \<open>utils/database\<close> that implements \<open>kenshoDb\<close> is
  not among the sources. The Local Store holds four record kinds (user preferences,
  recommendations, itinerary items, session flag), exactly one preference record and
  one session flag at most; absence of a kind reads as empty. The operations are total
  here: a store that is unavailable is outside the model.
\<close>

record local_store =
  stored_preferences :: "user_preferences option"
  stored_recommendations :: "recommendation list"
  stored_itinerary :: "itinerary_item list"
  stored_session :: "bool option"

text \<open>Modelled from the spec: the store of a fresh install, which \<open>clearAll\<close> restores
  (\<open>kenshoDb.clearAllData\<close> is missing).\<close>

definition emptyStore :: local_store where
  "emptyStore = \<lparr>stored_preferences = None, stored_recommendations = [],
                  stored_itinerary = [], stored_session = None\<rparr>"

text \<open>Modelled from the spec: \<open>kenshoDb.saveUserPreferences\<close> is missing; the one
  preference record is overwritten by every save.\<close>

definition kenshoDb_saveUserPreferences :: "user_preferences \<Rightarrow> local_store \<Rightarrow> local_store" where
  "kenshoDb_saveUserPreferences p db = db\<lparr>stored_preferences := Some p\<rparr>"

text \<open>Modelled from the spec: \<open>kenshoDb.saveRecommendations\<close> is missing; stored
  recommendations are replaced, not merged, by each save.\<close>

definition kenshoDb_saveRecommendations :: "recommendation list \<Rightarrow> local_store \<Rightarrow> local_store" where
  "kenshoDb_saveRecommendations recs db = db\<lparr>stored_recommendations := recs\<rparr>"

text \<open>Modelled from the spec: the keyed write behind \<open>kenshoDb.addToItinerary\<close>, which
  is missing; saving an item whose id is stored yields one stored record of that id.\<close>

fun putById :: "itinerary_item \<Rightarrow> itinerary_item list \<Rightarrow> itinerary_item list" where
  "putById item [] = [item]"
| "putById item (i # is) = (if rec_id i = rec_id item then item # is else i # putById item is)"

text \<open>Modelled from the spec: \<open>kenshoDb.addToItinerary\<close> is missing; it stores one
  itinerary item under its id.\<close>

definition kenshoDb_addToItinerary :: "itinerary_item \<Rightarrow> local_store \<Rightarrow> local_store" where
  "kenshoDb_addToItinerary item db = db\<lparr>stored_itinerary := putById item (stored_itinerary db)\<rparr>"

text \<open>Modelled from the spec: \<open>kenshoDb.clearItinerary\<close> is missing; it removes every
  stored itinerary item.\<close>

definition kenshoDb_clearItinerary :: "local_store \<Rightarrow> local_store" where
  "kenshoDb_clearItinerary db = db\<lparr>stored_itinerary := []\<rparr>"

text \<open>Modelled from the spec: \<open>kenshoDb.saveSession\<close> is missing; it stores the
  \<open>isGenerated\<close> flag of the one session record.\<close>

definition kenshoDb_saveSession :: "bool \<Rightarrow> local_store \<Rightarrow> local_store" where
  "kenshoDb_saveSession g db = db\<lparr>stored_session := Some g\<rparr>"

text \<open>Modelled from the spec: \<open>kenshoDb.clearAllData\<close> is missing; it clears all four
  kinds.\<close>

definition kenshoDb_clearAllData :: "local_store \<Rightarrow> local_store" where
  "kenshoDb_clearAllData db = emptyStore"

record storage_stats =
  preferencesCount :: nat
  recommendationsCount :: nat
  itineraryCount :: nat
  sessionExists :: bool

text \<open>Modelled from the spec: \<open>kenshoDb.getStorageStats\<close> is missing; it reports the
  number of stored records of each kind and whether a session record exists.\<close>

definition kenshoDb_getStorageStats :: "local_store \<Rightarrow> storage_stats" where
  "kenshoDb_getStorageStats db =
     \<lparr>preferencesCount = (case stored_preferences db of None \<Rightarrow> 0 | Some _ \<Rightarrow> 1),
      recommendationsCount = length (stored_recommendations db),
      itineraryCount = length (stored_itinerary db),
      sessionExists = (stored_session db \<noteq> None)\<rparr>"

section \<open>Component state\<close>

text \<open>The \<open>useState\<close> cells of the \<open>CulturalCompass\<close> component that the operations
  below read or write.\<close>

record app_state =
  destination :: string
  movie :: string
  artist :: string
  author :: string
  recommendations :: "recommendation list"
  itinerary :: "itinerary_item list"
  isGenerated :: bool
  isDbLoading :: bool
  isLoading :: bool
  error :: "string option"
  apiError :: string
  autoplanDescription :: string
  isAutoplanning :: bool
  autoplanError :: "string option"

text \<open>The white space and line terminators of JavaScript among the characters with a
  code below 256: tab, line feed, vertical tab, form feed, carriage return, space and
  the no-break space (code 160).\<close>

definition isWhitespace :: "char \<Rightarrow> bool" where
  "isWhitespace c = ((of_char c :: nat) \<in> {9, 10, 11, 12, 13, 32, 160})"

text \<open>\<open>String.prototype.trim\<close>.\<close>

definition trim :: "string \<Rightarrow> string" where
  "trim s = rev (dropWhile isWhitespace (rev (dropWhile isWhitespace s)))"

definition hasRequiredInputs :: "app_state \<Rightarrow> bool" where
  "hasRequiredInputs st =
     (trim (destination st) \<noteq> [] \<and>
      (trim (movie st) \<noteq> [] \<or> trim (artist st) \<noteq> [] \<or> trim (author st) \<noteq> []))"

subsection \<open>Effects\<close>

text \<open>The effect with dependencies \<open>[destination, movie, artist, author]\<close>
  (``Reset generated state when inputs change'').\<close>

definition resetEffect :: "app_state \<Rightarrow> app_state" where
  "resetEffect st = st\<lparr>isGenerated := False, recommendations := [], itinerary := []\<rparr>"

datatype pref_field = Destination | Movie | Artist | Author

definition prefValue :: "pref_field \<Rightarrow> app_state \<Rightarrow> string" where
  "prefValue f st =
     (case f of Destination \<Rightarrow> destination st | Movie \<Rightarrow> movie st
              | Artist \<Rightarrow> artist st | Author \<Rightarrow> author st)"

definition setPref :: "pref_field \<Rightarrow> string \<Rightarrow> app_state \<Rightarrow> app_state" where
  "setPref f v st =
     (case f of Destination \<Rightarrow> st\<lparr>destination := v\<rparr> | Movie \<Rightarrow> st\<lparr>movie := v\<rparr>
              | Artist \<Rightarrow> st\<lparr>artist := v\<rparr> | Author \<Rightarrow> st\<lparr>author := v\<rparr>)"

text \<open>
  One of \<open>setDestination\<close>, \<open>setMovie\<close>, \<open>setArtist\<close>, \<open>setAuthor\<close> called with \<open>v\<close>
  (the \<open>onChange\<close> handlers of the four inputs), followed by the effects of the next
  render: an effect runs when one of its dependencies differs from the previous render.
\<close>

definition changePreference :: "pref_field \<Rightarrow> string \<Rightarrow> app_state \<Rightarrow> app_state" where
  "changePreference f v st =
     (let st' = setPref f v st in
      if (destination st', movie st', artist st', author st')
           \<noteq> (destination st, movie st, artist st, author st)
      then resetEffect st' else st')"

text \<open>The three auto-persist effects (``Save data to IndexedDB whenever state changes'').\<close>

definition persistRecommendationsEffect :: "app_state \<Rightarrow> local_store \<Rightarrow> local_store" where
  "persistRecommendationsEffect st db =
     (if \<not> isDbLoading st \<and> length (recommendations st) > 0
      then kenshoDb_saveRecommendations (recommendations st) db else db)"

definition persistItineraryEffect :: "app_state \<Rightarrow> local_store \<Rightarrow> local_store" where
  "persistItineraryEffect st db =
     (if \<not> isDbLoading st
      then foldl (\<lambda>d item. kenshoDb_addToItinerary item d) db (itinerary st) else db)"

definition persistSessionEffect :: "app_state \<Rightarrow> local_store \<Rightarrow> local_store" where
  "persistSessionEffect st db =
     (if \<not> isDbLoading st then kenshoDb_saveSession (isGenerated st) db else db)"

text \<open>The debounced preference effect, once its timer has fired (the write to the
  Local Store; the legacy backup keys are not part of the store).\<close>

definition persistPreferencesEffect :: "app_state \<Rightarrow> local_store \<Rightarrow> local_store" where
  "persistPreferencesEffect st db =
     (if isDbLoading st then db
      else kenshoDb_saveUserPreferences
             \<lparr>pref_destination = destination st, pref_movie = movie st,
              pref_artist = artist st, pref_author = author st\<rparr> db)"

text \<open>The persist effects of one render, run one after the other.\<close>

definition runPersistEffects :: "app_state \<Rightarrow> local_store \<Rightarrow> local_store" where
  "runPersistEffects st db =
     persistPreferencesEffect st
       (persistSessionEffect st (persistItineraryEffect st (persistRecommendationsEffect st db)))"

subsection \<open>Itinerary operations\<close>

definition addToItinerary :: "recommendation \<Rightarrow> app_state \<times> local_store \<Rightarrow> app_state \<times> local_store" where
  "addToItinerary rec = (\<lambda>(st, db).
     (if find (\<lambda>item. rec_id item = rec_id rec) (itinerary st) = None
      then (let newItem = recommendation.extend rec
                            \<lparr>day = 1, item_notes = [], order = length (itinerary st)\<rparr>
            in (st\<lparr>itinerary := itinerary st @ [newItem]\<rparr>, kenshoDb_addToItinerary newItem db))
      else (st, db)))"

subsection \<open>Generating recommendations\<close>

text \<open>
  What the request of \<open>handleGenerateRecommendations\<close> came back with: an error was
  thrown (a failed \<open>fetch\<close>, or \<open>!response.ok || !data.success\<close>) with the given
  message, or the entity list \<open>data.results?.entities || []\<close> was read.
\<close>

datatype api_response = ApiError string | ApiEntities "entity list"

definition missingKey :: "string option \<Rightarrow> bool" where
  "missingKey k = (orElse k [] = [])"

definition handleGenerateRecommendations ::
  "string option \<Rightarrow> api_response \<Rightarrow> (nat \<Rightarrow> real) \<Rightarrow> app_state \<times> local_store
     \<Rightarrow> app_state \<times> local_store" where
  "handleGenerateRecommendations apiKey response rand = (\<lambda>(st, db).
     if \<not> hasRequiredInputs st then (st, db)
     else if missingKey apiKey then (st\<lparr>error := Some ''Please provide a Qloo API Key.''\<rparr>, db)
     else
       (let st1 = st\<lparr>isLoading := True, error := None, apiError := [], recommendations := []\<rparr> in
        case response of
          ApiError msg \<Rightarrow>
            (st1\<lparr>apiError := (if includesStr msg ''400'' then ''Destination is invalid''
                               else ''An error occurred while generating recommendations''),
                 isLoading := False\<rparr>, db)
        | ApiEntities entities \<Rightarrow>
            (let mapped = mappedRecommendations rand entities in
             (st1\<lparr>recommendations := mapped, isGenerated := True, isLoading := False\<rparr>,
              kenshoDb_saveSession True (kenshoDb_saveRecommendations mapped db)))))"

text \<open>
  The handler is asynchronous: it runs up to \<open>await fetch(...)\<close>, and the rest runs when
  the response arrives; other event handlers (the \<open>onChange\<close> of the four inputs, which
  stay enabled while loading) can run in between. The request is built from the four
  preference fields as they are when the handler is called.
\<close>

record generation_request =
  req_destination :: string
  req_movie :: string
  req_artist :: string
  req_author :: string

definition requestOf :: "app_state \<Rightarrow> generation_request" where
  "requestOf st = \<lparr>req_destination = destination st, req_movie = movie st,
                   req_artist = artist st, req_author = author st\<rparr>"

text \<open>The part of \<open>handleGenerateRecommendations\<close> before the \<open>await\<close>: the guards, the
  four state updates, and the request sent (\<open>None\<close> when a guard returned).\<close>

definition beginGenerateRecommendations ::
  "string option \<Rightarrow> app_state \<Rightarrow> app_state \<times> generation_request option" where
  "beginGenerateRecommendations apiKey st =
     (if \<not> hasRequiredInputs st then (st, None)
      else if missingKey apiKey
      then (st\<lparr>error := Some ''Please provide a Qloo API Key.''\<rparr>, None)
      else (st\<lparr>isLoading := True, error := None, apiError := [], recommendations := []\<rparr>,
            Some (requestOf st)))"

text \<open>The part after the \<open>await\<close>, run on the state of the component at that time: the
  \<open>catch\<close> branch or the mapping and the two saves, then \<open>finally\<close>.\<close>

definition completeGenerateRecommendations ::
  "api_response \<Rightarrow> (nat \<Rightarrow> real) \<Rightarrow> app_state \<times> local_store \<Rightarrow> app_state \<times> local_store" where
  "completeGenerateRecommendations response rand = (\<lambda>(st, db).
     case response of
       ApiError msg \<Rightarrow>
         (st\<lparr>apiError := (if includesStr msg ''400'' then ''Destination is invalid''
                           else ''An error occurred while generating recommendations''),
             isLoading := False\<rparr>, db)
     | ApiEntities entities \<Rightarrow>
         (let mapped = mappedRecommendations rand entities in
          (st\<lparr>recommendations := mapped, isGenerated := True, isLoading := False\<rparr>,
           kenshoDb_saveSession True (kenshoDb_saveRecommendations mapped db))))"

subsection \<open>Autoplan\<close>

text \<open>A value returned by \<open>JSON.parse\<close>.\<close>

datatype json = JNull | JBool bool | JNum real | JStr string | JArr "json list"
  | JObj "(string \<times> json) list"

text \<open>What \<open>ai.models.generateContent\<close> did: threw an error with a message, returned
  a result without text, or returned a result with \<open>result.text\<close>.\<close>

datatype ai_result = AiThrows string | AiNoText | AiText string

definition quote :: char where
  "quote = CHR 0x22"

text \<open>
  \<open>response.match(/"([^"]+)"/g)\<close>: all matches, left to right, of a quote, one or more
  characters other than a quote, and a quote; each match with its two quotes. The first
  argument is the text read since the last opening quote (reversed), or \<open>None\<close> outside
  a quoted part. A quote directly after an opening quote closes nothing and is the next
  opening quote.
\<close>

fun scanQuoted :: "string option \<Rightarrow> string \<Rightarrow> string list" where
  "scanQuoted opened [] = []"
| "scanQuoted None (c # cs) =
     (if c = quote then scanQuoted (Some []) cs else scanQuoted None cs)"
| "scanQuoted (Some acc) (c # cs) =
     (if c = quote
      then (if acc = [] then scanQuoted (Some []) cs
            else (quote # rev acc @ [quote]) # scanQuoted None cs)
      else scanQuoted (Some (c # acc)) cs)"

definition matchQuoted :: "string \<Rightarrow> string list" where
  "matchQuoted response = scanQuoted None response"

text \<open>
  The \<open>try\<close>/\<open>catch\<close> around \<open>JSON.parse(response)\<close>. \<open>JSON_parse\<close> is the runtime's
  parser, \<open>None\<close> when it throws. \<open>Inl\<close> is the message of a thrown error.
\<close>

definition parseSelectedIds :: "(string \<Rightarrow> json option) \<Rightarrow> string \<Rightarrow> string + json" where
  "parseSelectedIds JSON_parse response =
     (case JSON_parse response of
        Some selectedIds \<Rightarrow> Inr selectedIds
      | None \<Rightarrow>
          (case matchQuoted response of
             [] \<Rightarrow> Inl ''Could not parse AI response''
           | idMatches \<Rightarrow> Inr (JArr (map (\<lambda>m. JStr (filter (\<lambda>c. c \<noteq> quote) m)) idMatches))))"

text \<open>
  \<open>recommendations.filter(rec => selectedIds.includes(rec.id))\<close>. On an array
  \<open>includes\<close> is membership, on a string it is the substring test; any other parsed
  value has no \<open>includes\<close> and the first call throws a \<open>TypeError\<close> (the message is
  the engine's).
\<close>

definition selectRecommendations :: "recommendation list \<Rightarrow> json \<Rightarrow> string + recommendation list" where
  "selectRecommendations recs selectedIds =
     (case selectedIds of
        JArr vs \<Rightarrow> Inr (filter (\<lambda>r. JStr (rec_id r) \<in> set vs) recs)
      | JStr s \<Rightarrow> Inr (filter (\<lambda>r. includesStr s (rec_id r)) recs)
      | _ \<Rightarrow> (if recs = [] then Inr [] else Inl ''selectedIds.includes is not a function''))"

definition autoplanSelection ::
  "(string \<Rightarrow> json option) \<Rightarrow> ai_result \<Rightarrow> recommendation list \<Rightarrow> string + recommendation list" where
  "autoplanSelection JSON_parse aiResult recs =
     (case aiResult of
        AiThrows msg \<Rightarrow> Inl msg
      | AiNoText \<Rightarrow> Inl ''Cannot read properties of undefined (reading match)''
      | AiText response \<Rightarrow>
          (case parseSelectedIds JSON_parse response of
             Inl msg \<Rightarrow> Inl msg
           | Inr selectedIds \<Rightarrow> selectRecommendations recs selectedIds))"

definition pleaseGenerateFirst :: string where
  "pleaseGenerateFirst =
     ''Please generate recommendations first and provide a description of what you''
       @ [CHR 0x27] @ ''re looking for.''"

definition noMatchingRecommendations :: string where
  "noMatchingRecommendations = ''No matching recommendations found. Try a different description.''"

text \<open>The \<open>map\<close> that builds \<open>newItineraryItems\<close>.\<close>

definition newItineraryItems :: "string \<Rightarrow> recommendation list \<Rightarrow> itinerary_item list" where
  "newItineraryItems userDescription selectedRecommendations =
     map (\<lambda>(index, rec). recommendation.extend rec
            \<lparr>day = index div 2 + 1,
             item_notes = ''Auto-selected based on: '' @ userDescription,
             order = index\<rparr>)
         (zip [0..<length selectedRecommendations] selectedRecommendations)"

definition handleAutoplan ::
  "string option \<Rightarrow> (string \<Rightarrow> json option) \<Rightarrow> ai_result \<Rightarrow> app_state \<times> local_store
     \<Rightarrow> app_state \<times> local_store" where
  "handleAutoplan geminiApiKey JSON_parse aiResult = (\<lambda>(st, db).
     if trim (autoplanDescription st) = [] \<or> \<not> hasRequiredInputs st \<or> \<not> isGenerated st
          \<or> length (recommendations st) = 0
     then (st\<lparr>autoplanError := Some pleaseGenerateFirst\<rparr>, db)
     else if missingKey geminiApiKey
     then (st\<lparr>autoplanError := Some ''Gemini API key not found. Please add VITE_GEMINI_API_KEY to your environment variables.''\<rparr>, db)
     else
       (let st1 = st\<lparr>isAutoplanning := True, autoplanError := None\<rparr> in
        case autoplanSelection JSON_parse aiResult (recommendations st) of
          Inl msg \<Rightarrow>
            (st1\<lparr>autoplanError := Some (if msg = []
                                          then ''Failed to generate autoplan. Please try again.''
                                          else msg),
                 isAutoplanning := False\<rparr>, db)
        | Inr selectedRecommendations \<Rightarrow>
            if length selectedRecommendations = 0
            then (st1\<lparr>autoplanError := Some noMatchingRecommendations,
                      isAutoplanning := False\<rparr>, db)
            else
              (let items = newItineraryItems (autoplanDescription st) selectedRecommendations in
               (st1\<lparr>itinerary := items, autoplanDescription := [], isAutoplanning := False\<rparr>,
                foldl (\<lambda>d item. kenshoDb_addToItinerary item d) (kenshoDb_clearItinerary db) items))))"

section \<open>Migration of the legacy storage\<close>

text \<open>The browser's \<open>localStorage\<close>: \<open>getItem\<close> is application, \<open>None\<close> is \<open>null\<close>.\<close>

type_synonym legacy_storage = "string \<Rightarrow> string option"

text \<open>Truthiness of a \<open>getItem\<close> result: \<open>null\<close> and the empty string are falsy.\<close>

definition truthy :: "string option \<Rightarrow> bool" where
  "truthy v = (orElse v [] \<noteq> [])"

text \<open>
  \<open>migrateFromLocalStorage\<close>. The two parsers stand for \<open>JSON.parse\<close> on the legacy
  recommendation and itinerary values, which earlier versions wrote as arrays of
  records; \<open>None\<close> is a parse that throws, which the \<open>catch\<close> of that block logs and
  drops. \<open>if (lsRecommendations)\<close> is false for \<open>null\<close> and for the empty string.
\<close>

text \<open>The four guarded blocks of the function, in the order of the source; each
  takes the statistics read once at the start (\<open>hasDbData\<close>).\<close>

definition migratePreferences :: "storage_stats \<Rightarrow> legacy_storage \<Rightarrow> local_store \<Rightarrow> local_store" where
  "migratePreferences hasDbData localStorage db =
     (if preferencesCount hasDbData = 0
      then (let lsDestination = localStorage ''kensho-destination'';
                lsMovie = localStorage ''kensho-movie'';
                lsArtist = localStorage ''kensho-artist'';
                lsAuthor = localStorage ''kensho-author''
            in if truthy lsDestination \<or> truthy lsMovie \<or> truthy lsArtist \<or> truthy lsAuthor
               then kenshoDb_saveUserPreferences
                      \<lparr>pref_destination = orElse lsDestination [],
                       pref_movie = orElse lsMovie [],
                       pref_artist = orElse lsArtist [],
                       pref_author = orElse lsAuthor []\<rparr> db
               else db)
      else db)"

definition migrateRecommendations ::
  "(string \<Rightarrow> recommendation list option) \<Rightarrow> storage_stats \<Rightarrow> legacy_storage
     \<Rightarrow> local_store \<Rightarrow> local_store" where
  "migrateRecommendations JSON_parse_recs hasDbData localStorage db =
     (if recommendationsCount hasDbData = 0
      then (let lsRecommendations = localStorage ''kensho-recommendations''
            in case lsRecommendations of
                 None \<Rightarrow> db
               | Some raw \<Rightarrow>
                   if raw = [] then db
                   else (case JSON_parse_recs raw of
                           None \<Rightarrow> db
                         | Some recs \<Rightarrow>
                             if length recs > 0 then kenshoDb_saveRecommendations recs db
                             else db))
      else db)"

definition migrateItinerary ::
  "(string \<Rightarrow> itinerary_item list option) \<Rightarrow> storage_stats \<Rightarrow> legacy_storage
     \<Rightarrow> local_store \<Rightarrow> local_store" where
  "migrateItinerary JSON_parse_items hasDbData localStorage db =
     (if itineraryCount hasDbData = 0
      then (let lsItinerary = localStorage ''kensho-itinerary''
            in case lsItinerary of
                 None \<Rightarrow> db
               | Some raw \<Rightarrow>
                   if raw = [] then db
                   else (case JSON_parse_items raw of
                           None \<Rightarrow> db
                         | Some items \<Rightarrow>
                             foldl (\<lambda>d item. kenshoDb_addToItinerary item d) db items))
      else db)"

definition migrateSession :: "storage_stats \<Rightarrow> legacy_storage \<Rightarrow> local_store \<Rightarrow> local_store" where
  "migrateSession hasDbData localStorage db =
     (if \<not> sessionExists hasDbData
      then (let lsIsGenerated = localStorage ''kensho-is-generated''
            in if truthy lsIsGenerated
               then kenshoDb_saveSession (lsIsGenerated = Some ''true'') db
               else db)
      else db)"

definition migrateFromLocalStorage ::
  "(string \<Rightarrow> recommendation list option) \<Rightarrow> (string \<Rightarrow> itinerary_item list option)
     \<Rightarrow> legacy_storage \<Rightarrow> local_store \<Rightarrow> local_store" where
  "migrateFromLocalStorage JSON_parse_recs JSON_parse_items localStorage db =
     (let hasDbData = kenshoDb_getStorageStats db;
          db1 = migratePreferences hasDbData localStorage db;
          db2 = migrateRecommendations JSON_parse_recs hasDbData localStorage db1;
          db3 = migrateItinerary JSON_parse_items hasDbData localStorage db2;
          db4 = migrateSession hasDbData localStorage db3
      in db4)"

section \<open>Clearing all data\<close>

definition legacyKeys :: "string list" where
  "legacyKeys = [''kensho-destination'', ''kensho-movie'', ''kensho-artist'', ''kensho-author'',
                 ''kensho-recommendations'', ''kensho-itinerary'', ''kensho-is-generated'']"

definition removeItems :: "string list \<Rightarrow> legacy_storage \<Rightarrow> legacy_storage" where
  "removeItems ks localStorage = (\<lambda>k. if k \<in> set ks then None else localStorage k)"

definition clearAllData ::
  "app_state \<times> local_store \<times> legacy_storage \<Rightarrow> app_state \<times> local_store \<times> legacy_storage" where
  "clearAllData = (\<lambda>(st, db, localStorage).
     (st\<lparr>destination := [], movie := [], artist := [], author := [],
         isGenerated := False, recommendations := [], itinerary := []\<rparr>,
      kenshoDb_clearAllData db,
      removeItems legacyKeys localStorage))"

section \<open>Map location projector\<close>

datatype location_type = itinerary_location | recommendation_location

record location =
  loc_id :: string
  loc_name :: string
  loc_category :: string
  loc_image :: string
  loc_insight :: string
  coordinates :: "real \<times> real"
  loc_type :: location_type

definition defaultCoordinates :: "real \<times> real" where
  "defaultCoordinates = (139.6917, 35.6895)"

text \<open>
  \<open>convertToMapLocation\<close>; the argument is a stored recommendation or itinerary
  item. The test \<open>item.latitude && item.longitude\<close> is on truthiness: \<open>undefined\<close>
  and the number \<open>0\<close> are both falsy.
\<close>

definition convertToMapLocation :: "'a recommendation_scheme \<Rightarrow> location_type \<Rightarrow> location" where
  "convertToMapLocation item ty =
     (let coords = (case (latitude item, longitude item) of
                      (Some lat, Some lon) \<Rightarrow>
                        if lat \<noteq> 0 \<and> lon \<noteq> 0 then (lon, lat) else defaultCoordinates
                    | _ \<Rightarrow> defaultCoordinates)
      in \<lparr>loc_id = rec_id item, loc_name = rec_name item, loc_category = category item,
          loc_image = rec_image item, loc_insight = insight item,
          coordinates = coords, loc_type = ty\<rparr>)"

definition mkRec :: "string \<Rightarrow> real option \<Rightarrow> real option \<Rightarrow> recommendation" where
  "mkRec i lat lon =
     \<lparr>rec_id = i, rec_name = i, category = ''Place'', rec_image = defaultImage,
      insight = defaultInsight, segment = explore, website = None,
      rec_x = None, rec_y = None, latitude = lat, longitude = lon\<rparr>"

definition mkState :: "recommendation list \<Rightarrow> itinerary_item list \<Rightarrow> app_state" where
  "mkState recs items =
     \<lparr>destination = ''Tokyo'', movie = ''Lost in Translation'', artist = [], author = [],
      recommendations = recs, itinerary = items, isGenerated = True, isDbLoading = False,
      isLoading = False, error = None, apiError = [],
      autoplanDescription = ''quiet jazz bars'', isAutoplanning = False,
      autoplanError = None\<rparr>"

section \<open>Example data\<close>

definition exampleRecs :: "recommendation list" where
  "exampleRecs = [mkRec ''a'' None None, mkRec ''b'' None None, mkRec ''c'' None None]"

definition exampleOldItem :: itinerary_item where
  "exampleOldItem = recommendation.extend (mkRec ''z'' None None)
                      \<lparr>day = 4, item_notes = ''kept'', order = 0\<rparr>"

definition exampleReply :: string where
  "exampleReply = ''I suggest '' @ [quote] @ ''c'' @ [quote] @ '' then '' @ [quote] @ ''a'' @ [quote]"

definition exampleMissReply :: string where
  "exampleMissReply = ''Take '' @ [quote] @ ''x1'' @ [quote]"

definition exampleLegacy :: legacy_storage where
  "exampleLegacy = [''kensho-destination'' \<mapsto> ''Tokyo'',
                    ''kensho-recommendations'' \<mapsto> ''[{broken'',
                    ''kensho-itinerary'' \<mapsto> ''items'',
                    ''kensho-is-generated'' \<mapsto> ''true'']"

definition exampleParseRecs :: "string \<Rightarrow> recommendation list option" where
  "exampleParseRecs raw = (if raw = ''recs'' then Some [mkRec ''n'' None None] else None)"

definition exampleParseItems :: "string \<Rightarrow> itinerary_item list option" where
  "exampleParseItems raw = (if raw = ''items'' then Some [exampleOldItem] else None)"

text \<open>A run in which a preference changes while a generation request is in flight:
  the handler is called with destination Tokyo, the destination is changed to Kyoto
  before the response arrives, then the response to the Tokyo request arrives.\<close>

definition inFlightState :: app_state where
  "inFlightState = fst (beginGenerateRecommendations (Some ''key'') (mkState [] []))"

definition changedWhileInFlight :: app_state where
  "changedWhileInFlight = changePreference Destination ''Kyoto'' inFlightState"

definition staleResponseRun :: "app_state \<times> local_store" where
  "staleResponseRun =
     completeGenerateRecommendations
       (ApiEntities [mkEntity ''tokyo-tower'' 90 [''landmark'']]) (\<lambda>i. 1 / 2)
       (changedWhileInFlight, emptyStore)"

section \<open>Properties of the string helpers\<close>

lemma startsWith_prefix: "startsWith s k \<longleftrightarrow> prefix k s"
  by (induction s k rule: startsWith.induct) auto

lemma includesStr_sublist: "includesStr s k \<longleftrightarrow> sublist k s"
  by (induction s) (auto simp: startsWith_prefix sublist_Cons_right simp del: startsWith.simps)

lemma matchesAny_iff:
  "matchesAny kws tags \<longleftrightarrow>
     (\<exists>t \<in> set tags. \<exists>k \<in> set kws. sublist k (toLowerCase (tag_name t)))"
  by (simp add: matchesAny_def list_ex_iff includesStr_sublist)

section \<open>Segment classification\<close>

lemma mapTagsToSegment_refines: "mapTagsToSegment tags = classifyByPriority tags"
  unfolding mapTagsToSegment_def classifyByPriority_def matchesAny_def
    dineKeywords_def listenKeywords_def seeKeywords_def
  by (simp add: list_ex_iff Let_def)

lemmas segment_eval = mapTagsToSegment_def mkTag_def toLowerCase_def toLowerChar_def

text \<open>
  C2: segment classification is a function of the tag list that tries the keyword groups
  in priority order: a tag whose lower-cased name contains a dine keyword gives \<open>dine\<close>;
  otherwise a listen keyword gives \<open>listen\<close>; otherwise a see keyword gives \<open>see\<close>;
  otherwise \<open>explore\<close>. The five examples of the specification are evaluated.
\<close>

theorem mapTagsToSegment_priority:
  "mapTagsToSegment tags =
     (if matchesAny dineKeywords tags then dine
      else if matchesAny listenKeywords tags then listen
      else if matchesAny seeKeywords tags then see
      else explore)
   \<and> mapTagsToSegment [mkTag ''restaurant''] = dine
   \<and> mapTagsToSegment [mkTag ''jazz''] = listen
   \<and> mapTagsToSegment [mkTag ''museum''] = see
   \<and> mapTagsToSegment [] = explore
   \<and> mapTagsToSegment [mkTag ''restaurant'', mkTag ''museum''] = dine"
proof -
  have general: "mapTagsToSegment tags = classifyByPriority tags"
    by (rule mapTagsToSegment_refines)
  have e1: "mapTagsToSegment [mkTag ''restaurant''] = dine"
    by (simp add: segment_eval)
  have e2: "mapTagsToSegment [mkTag ''jazz''] = listen"
    by (simp add: segment_eval)
  have e3: "mapTagsToSegment [mkTag ''museum''] = see"
    by (simp add: segment_eval)
  have e4: "mapTagsToSegment [] = explore"
    by (simp add: segment_eval)
  have e5: "mapTagsToSegment [mkTag ''restaurant'', mkTag ''museum''] = dine"
    by (simp add: segment_eval)
  from general e1 e2 e3 e4 e5 show ?thesis
    by (simp only: classifyByPriority_def simp_thms)
qed

theorem mapTagsToSegment_priority_witness:
  "matchesAny seeKeywords [mkTag ''Art Gallery'', mkTag ''Jazz Bar'']
   \<and> matchesAny listenKeywords [mkTag ''Art Gallery'', mkTag ''Jazz Bar'']
   \<and> matchesAny dineKeywords [mkTag ''Art Gallery'', mkTag ''Jazz Bar'']
   \<and> mapTagsToSegment [mkTag ''Art Gallery'', mkTag ''Jazz Bar''] = dine
   \<and> \<not> matchesAny dineKeywords [mkTag ''Modern ART'']
   \<and> \<not> matchesAny listenKeywords [mkTag ''Modern ART'']
   \<and> matchesAny seeKeywords [mkTag ''Modern ART'']
   \<and> mapTagsToSegment [mkTag ''Modern ART''] = see"
proof -
  have s1: "matchesAny seeKeywords [mkTag ''Art Gallery'', mkTag ''Jazz Bar'']"
    by code_simp
  have l1: "matchesAny listenKeywords [mkTag ''Art Gallery'', mkTag ''Jazz Bar'']"
    by code_simp
  have d1: "matchesAny dineKeywords [mkTag ''Art Gallery'', mkTag ''Jazz Bar'']"
    by code_simp
  have d2: "\<not> matchesAny dineKeywords [mkTag ''Modern ART'']"
    by code_simp
  have l2: "\<not> matchesAny listenKeywords [mkTag ''Modern ART'']"
    by code_simp
  have s2: "matchesAny seeKeywords [mkTag ''Modern ART'']"
    by code_simp
  show ?thesis
    using mapTagsToSegment_priority [of "[mkTag ''Art Gallery'', mkTag ''Jazz Bar'']"]
      mapTagsToSegment_priority [of "[mkTag ''Modern ART'']"] s1 l1 d1 d2 l2 s2
    by simp
qed

section \<open>Recommendation mapper\<close>

lemma radarRadius_bounds:
  "0 \<le> r \<Longrightarrow> r \<le> 1 \<Longrightarrow> 25 \<le> radarRadius r \<and> radarRadius r \<le> 95"
  by (simp add: radarRadius_def)

lemma popularityRank_bounds:
  "i < n \<Longrightarrow> 0 \<le> popularityRank n i \<and> popularityRank n i \<le> 1"
  by (auto simp: popularityRank_def divide_le_eq)

text \<open>The radius variable of every record lies between 25 and 95.\<close>

lemma radius_in_range:
  assumes "i < n"
  shows "25 \<le> radarRadius (popularityRank n i) \<and> radarRadius (popularityRank n i) \<le> 95"
  using popularityRank_bounds [OF assms] by (intro radarRadius_bounds) simp_all

lemma length_sortEntities: "length (sortEntities es) = length es"
  by (simp add: sortEntities_def)

lemma mset_sortEntities: "mset (sortEntities es) = mset es"
  by (simp add: sortEntities_def)

lemma sortEntities_sorted:
  "sorted_wrt (\<lambda>a b. popularity a \<ge> popularity b) (sortEntities es)"
proof -
  have "sorted (map (\<lambda>e. - popularity e) (sortEntities es))"
    by (simp add: sortEntities_def)
  then show ?thesis
    by (simp add: sorted_map sorted_wrt_iff_nth_less)
qed

lemma length_mappedRecommendations:
  "length (mappedRecommendations rand es) = length es"
  by (simp add: mappedRecommendations_def Let_def length_sortEntities)

lemma nth_mappedRecommendations:
  "i < length es \<Longrightarrow>
   mappedRecommendations rand es ! i = mapEntity (length es) (rand i) (sortEntities es ! i) i"
  by (simp add: mappedRecommendations_def Let_def length_sortEntities)

lemma ids_mappedRecommendations:
  "map rec_id (mappedRecommendations rand es) = map entity_id (sortEntities es)"
proof (rule nth_equalityI)
  show "length (map rec_id (mappedRecommendations rand es)) = length (map entity_id (sortEntities es))"
    by (simp add: length_mappedRecommendations length_sortEntities)
next
  fix i assume "i < length (map rec_id (mappedRecommendations rand es))"
  then have i: "i < length es"
    by (simp add: length_mappedRecommendations)
  then show "map rec_id (mappedRecommendations rand es) ! i = map entity_id (sortEntities es) ! i"
    by (simp add: length_mappedRecommendations length_sortEntities nth_mappedRecommendations
          mapEntity_def Let_def split_def)
qed



section \<open>Itinerary\<close>

lemma find_None_iff_id: "find (\<lambda>item. rec_id item = i) items = None \<longleftrightarrow> i \<notin> rec_id ` set items"
  by (auto simp: find_None_iff)

text \<open>
  C4: adding a recommendation whose id is already in the itinerary changes neither the
  component state nor the store; adding one whose id is absent appends it with day 1,
  empty notes and order equal to the previous length; so adding twice is adding once.
\<close>

theorem addToItinerary_idempotent:
  "(rec_id rec \<in> rec_id ` set (itinerary st) \<longrightarrow> addToItinerary rec (st, db) = (st, db))
   \<and> (rec_id rec \<notin> rec_id ` set (itinerary st) \<longrightarrow>
        addToItinerary rec (st, db)
          = (st\<lparr>itinerary := itinerary st
                  @ [recommendation.extend rec
                       \<lparr>day = 1, item_notes = [], order = length (itinerary st)\<rparr>]\<rparr>,
             kenshoDb_addToItinerary
               (recommendation.extend rec
                  \<lparr>day = 1, item_notes = [], order = length (itinerary st)\<rparr>) db))
   \<and> addToItinerary rec (addToItinerary rec (st, db)) = addToItinerary rec (st, db)
   \<and> length (itinerary (fst (addToItinerary rec (addToItinerary rec (st, db)))))
       = length (itinerary (fst (addToItinerary rec (st, db))))"
proof -
  have present: "addToItinerary rec (s, d) = (s, d)"
    if "rec_id rec \<in> rec_id ` set (itinerary s)" for s d
    using that by (simp add: addToItinerary_def find_None_iff_id)
  have absent: "addToItinerary rec (st, db)
          = (st\<lparr>itinerary := itinerary st
                  @ [recommendation.extend rec
                       \<lparr>day = 1, item_notes = [], order = length (itinerary st)\<rparr>]\<rparr>,
             kenshoDb_addToItinerary
               (recommendation.extend rec
                  \<lparr>day = 1, item_notes = [], order = length (itinerary st)\<rparr>) db)"
    if "rec_id rec \<notin> rec_id ` set (itinerary st)"
    using that by (simp add: addToItinerary_def find_None_iff_id Let_def)
  have twice: "addToItinerary rec (addToItinerary rec (st, db)) = addToItinerary rec (st, db)"
  proof (cases "rec_id rec \<in> rec_id ` set (itinerary st)")
    case True
    then show ?thesis by (simp add: present)
  next
    case False
    have "rec_id rec \<in> rec_id ` set (itinerary (fst (addToItinerary rec (st, db))))"
      by (simp add: absent [OF False] recommendation.defs)
    then show ?thesis
      using present [of "fst (addToItinerary rec (st, db))" "snd (addToItinerary rec (st, db))"]
      by simp
  qed
  from present [of st db] absent twice show ?thesis by simp
qed

theorem addToItinerary_idempotent_witness:
  "rec_id (mkRec ''jazz-bar'' None None) \<notin> rec_id ` set (itinerary (mkState [] []))
   \<and> map rec_id (itinerary (fst (addToItinerary (mkRec ''jazz-bar'' None None) (mkState [] [], emptyStore))))
       = [''jazz-bar'']
   \<and> map day (itinerary (fst (addToItinerary (mkRec ''jazz-bar'' None None) (mkState [] [], emptyStore))))
       = [1]
   \<and> map order (itinerary (fst (addToItinerary (mkRec ''jazz-bar'' None None) (mkState [] [], emptyStore))))
       = [0]
   \<and> rec_id (mkRec ''jazz-bar'' None None)
       \<in> rec_id ` set (itinerary (fst (addToItinerary (mkRec ''jazz-bar'' None None) (mkState [] [], emptyStore))))
   \<and> length (itinerary (fst (addToItinerary (mkRec ''jazz-bar'' None None)
         (addToItinerary (mkRec ''jazz-bar'' None None) (mkState [] [], emptyStore))))) = 1"
proof -
  let ?r = "mkRec ''jazz-bar'' None None"
  let ?s = "(mkState [] [], emptyStore)"
  have a: "rec_id ?r \<notin> rec_id ` set (itinerary (mkState [] []))"
    by (simp add: mkState_def)
  have rid: "rec_id ?r = ''jazz-bar''"
    by (simp add: mkRec_def)
  note main = addToItinerary_idempotent [of ?r "mkState [] []" emptyStore]
  from main a have once: "itinerary (fst (addToItinerary ?r ?s))
      = [recommendation.extend ?r \<lparr>day = 1, item_notes = [], order = 0\<rparr>]"
    by (simp add: mkState_def)
  from main have twice: "addToItinerary ?r (addToItinerary ?r ?s) = addToItinerary ?r ?s"
    by blast
  show ?thesis
    using a by (simp add: twice once recommendation.defs rid)
qed

section \<open>Preference changes\<close>

lemma handleGenerateRecommendations_split:
  "handleGenerateRecommendations apiKey response rand (st, db) =
     (case beginGenerateRecommendations apiKey st of
        (st1, None) \<Rightarrow> (st1, db)
      | (st1, Some request) \<Rightarrow> completeGenerateRecommendations response rand (st1, db))"
  by (simp add: handleGenerateRecommendations_def beginGenerateRecommendations_def
        completeGenerateRecommendations_def Let_def split: api_response.splits)

lemma prefValue_changePreference:
  "prefValue g (changePreference f v st) = (if g = f then v else prefValue g st)"
  by (cases f; cases g)
     (simp_all add: changePreference_def setPref_def prefValue_def resetEffect_def Let_def)

lemma reset_changePreference:
  assumes "v \<noteq> prefValue f st"
  shows "\<not> isGenerated (changePreference f v st)"
    and "recommendations (changePreference f v st) = []"
    and "itinerary (changePreference f v st) = []"
  using assms
  by (cases f; auto simp: changePreference_def setPref_def prefValue_def resetEffect_def Let_def)+

lemma begin_after_guards:
  assumes "hasRequiredInputs st" "\<not> missingKey apiKey"
  shows "beginGenerateRecommendations apiKey st
     = (st\<lparr>isLoading := True, error := None, apiError := [], recommendations := []\<rparr>,
        Some (requestOf st))"
  using assms by (simp add: beginGenerateRecommendations_def)

lemma complete_entities:
  "fst (completeGenerateRecommendations (ApiEntities entities) rand (st, db))
     = st\<lparr>recommendations := mappedRecommendations rand entities, isGenerated := True,
          isLoading := False\<rparr>"
  by (simp add: completeGenerateRecommendations_def Let_def)

text \<open>
  C7, as the claim states it, fails: the reset does not make the recommendations a
  function of the current preference set and one generate action. In the run below the
  handler is called for destination Tokyo, the destination is changed to Kyoto while
  the request is in flight (the reset empties the list and clears \<open>isGenerated\<close>), and
  the response to the Tokyo request then fills the list and sets \<open>isGenerated\<close>, with
  no generate action after the change.
\<close>

theorem stale_response_after_reset:
  "snd (beginGenerateRecommendations (Some ''key'') (mkState [] []))
     = Some \<lparr>req_destination = ''Tokyo'', req_movie = ''Lost in Translation'',
             req_artist = [], req_author = []\<rparr>
   \<and> destination inFlightState = ''Tokyo''
   \<and> destination changedWhileInFlight = ''Kyoto''
   \<and> \<not> isGenerated changedWhileInFlight
   \<and> recommendations changedWhileInFlight = []
   \<and> itinerary changedWhileInFlight = []
   \<and> destination (fst staleResponseRun) = ''Kyoto''
   \<and> isGenerated (fst staleResponseRun)
   \<and> map rec_id (recommendations (fst staleResponseRun)) = [''tokyo-tower'']
   \<and> map rec_id (stored_recommendations (snd staleResponseRun)) = [''tokyo-tower'']"
proof -
  have guards: "hasRequiredInputs (mkState [] [])" "\<not> missingKey (Some ''key'')"
    by (simp_all add: hasRequiredInputs_def mkState_def trim_def isWhitespace_def missingKey_def
          orElse_def)
  note started = begin_after_guards [OF guards]
  have req: "snd (beginGenerateRecommendations (Some ''key'') (mkState [] []))
     = Some \<lparr>req_destination = ''Tokyo'', req_movie = ''Lost in Translation'',
             req_artist = [], req_author = []\<rparr>"
    by (simp add: started) (simp add: requestOf_def mkState_def)
  have dest: "destination inFlightState = ''Tokyo''"
    by (simp add: inFlightState_def started) (simp add: mkState_def)
  then have differs: "''Kyoto'' \<noteq> prefValue Destination inFlightState"
    by (simp add: prefValue_def)
  have changed: "destination changedWhileInFlight = ''Kyoto''"
    using prefValue_changePreference [of Destination Destination "''Kyoto''" inFlightState]
    by (simp add: changedWhileInFlight_def prefValue_def)
  note reset = reset_changePreference [OF differs, folded changedWhileInFlight_def]
  have ids: "map rec_id (mappedRecommendations (\<lambda>i. 1 / 2) [mkEntity ''tokyo-tower'' 90 [''landmark'']])
      = [''tokyo-tower'']"
    by (simp add: ids_mappedRecommendations sortEntities_def mkEntity_def)
  have final: "fst staleResponseRun
      = changedWhileInFlight\<lparr>recommendations :=
            mappedRecommendations (\<lambda>i. 1 / 2) [mkEntity ''tokyo-tower'' 90 [''landmark'']],
          isGenerated := True, isLoading := False\<rparr>"
    by (simp add: staleResponseRun_def complete_entities)
  have stored: "stored_recommendations (snd staleResponseRun)
      = mappedRecommendations (\<lambda>i. 1 / 2) [mkEntity ''tokyo-tower'' 90 [''landmark'']]"
    by (simp add: staleResponseRun_def completeGenerateRecommendations_def Let_def
          kenshoDb_saveSession_def kenshoDb_saveRecommendations_def)
  from req dest changed reset show ?thesis
    by (simp add: final stored ids)
qed

text \<open>
  C7, amended: changing any one of destination, movie, artist, author to a different
  value leaves the other three as they are, sets \<open>isGenerated\<close> to false and empties
  the recommendation list and the itinerary list of the component. A generate action
  called after the change sends the request for the preference set then current, and
  when its response arrives with no change in between the list is the mapped response
  and \<open>isGenerated\<close> is true.
\<close>

theorem changePreference_resets_until_response:
  assumes "v \<noteq> prefValue f st"
  shows "prefValue f (changePreference f v st) = v
     \<and> (g \<noteq> f \<longrightarrow> prefValue g (changePreference f v st) = prefValue g st)
     \<and> \<not> isGenerated (changePreference f v st)
     \<and> recommendations (changePreference f v st) = []
     \<and> itinerary (changePreference f v st) = []
     \<and> (hasRequiredInputs (changePreference f v st) \<and> \<not> missingKey apiKey \<longrightarrow>
          snd (beginGenerateRecommendations apiKey (changePreference f v st))
            = Some (requestOf (changePreference f v st))
          \<and> requestOf (fst (beginGenerateRecommendations apiKey (changePreference f v st)))
            = requestOf (changePreference f v st)
          \<and> recommendations (fst (beginGenerateRecommendations apiKey (changePreference f v st)))
            = []
          \<and> handleGenerateRecommendations apiKey (ApiEntities entities) rand
               (changePreference f v st, db)
            = completeGenerateRecommendations (ApiEntities entities) rand
                (fst (beginGenerateRecommendations apiKey (changePreference f v st)), db)
          \<and> recommendations (fst (handleGenerateRecommendations apiKey (ApiEntities entities) rand
               (changePreference f v st, db)))
            = mappedRecommendations rand entities
          \<and> isGenerated (fst (handleGenerateRecommendations apiKey (ApiEntities entities) rand
               (changePreference f v st, db))))"
proof -
  let ?st = "changePreference f v st"
  have gen: "snd (beginGenerateRecommendations apiKey ?st) = Some (requestOf ?st)
          \<and> requestOf (fst (beginGenerateRecommendations apiKey ?st)) = requestOf ?st
          \<and> recommendations (fst (beginGenerateRecommendations apiKey ?st)) = []
          \<and> handleGenerateRecommendations apiKey (ApiEntities entities) rand (?st, db)
            = completeGenerateRecommendations (ApiEntities entities) rand
                (fst (beginGenerateRecommendations apiKey ?st), db)
          \<and> recommendations (fst (handleGenerateRecommendations apiKey (ApiEntities entities) rand
               (?st, db)))
            = mappedRecommendations rand entities
          \<and> isGenerated (fst (handleGenerateRecommendations apiKey (ApiEntities entities) rand
               (?st, db)))"
    if "hasRequiredInputs ?st \<and> \<not> missingKey apiKey"
  proof -
    from that have b: "beginGenerateRecommendations apiKey ?st
        = (?st\<lparr>isLoading := True, error := None, apiError := [], recommendations := []\<rparr>,
           Some (requestOf ?st))"
      by (simp add: begin_after_guards)
    show ?thesis
      by (simp add: handleGenerateRecommendations_split b complete_entities requestOf_def)
  qed
  have own: "prefValue f ?st = v"
    by (simp add: prefValue_changePreference)
  have others: "g \<noteq> f \<longrightarrow> prefValue g ?st = prefValue g st"
    by (simp add: prefValue_changePreference)
  from own others reset_changePreference [OF assms] gen show ?thesis
    by blast
qed

theorem changePreference_resets_until_response_witness:
  "''Kyoto'' \<noteq> prefValue Destination (mkState [mkRec ''a'' None None] [])
   \<and> recommendations (mkState [mkRec ''a'' None None] []) \<noteq> []
   \<and> isGenerated (mkState [mkRec ''a'' None None] [])
   \<and> destination (changePreference Destination ''Kyoto'' (mkState [mkRec ''a'' None None] []))
       = ''Kyoto''
   \<and> movie (changePreference Destination ''Kyoto'' (mkState [mkRec ''a'' None None] []))
       = ''Lost in Translation''
   \<and> \<not> isGenerated (changePreference Destination ''Kyoto'' (mkState [mkRec ''a'' None None] []))
   \<and> recommendations (changePreference Destination ''Kyoto'' (mkState [mkRec ''a'' None None] [])) = []
   \<and> itinerary (changePreference Destination ''Kyoto'' (mkState [mkRec ''a'' None None] [])) = []
   \<and> hasRequiredInputs (changePreference Destination ''Kyoto'' (mkState [mkRec ''a'' None None] []))
   \<and> \<not> missingKey (Some ''key'')
   \<and> snd (beginGenerateRecommendations (Some ''key'')
        (changePreference Destination ''Kyoto'' (mkState [mkRec ''a'' None None] [])))
       = Some \<lparr>req_destination = ''Kyoto'', req_movie = ''Lost in Translation'',
               req_artist = [], req_author = []\<rparr>
   \<and> map rec_id (recommendations (fst (handleGenerateRecommendations (Some ''key'')
        (ApiEntities [mkEntity ''kinkaku-ji'' 80 [''landmark'']]) (\<lambda>i. 1 / 2)
        (changePreference Destination ''Kyoto'' (mkState [mkRec ''a'' None None] []), emptyStore))))
       = [''kinkaku-ji'']"
proof -
  let ?init = "mkState [mkRec ''a'' None None] []"
  let ?changed = "changePreference Destination ''Kyoto'' ?init"
  have h: "''Kyoto'' \<noteq> prefValue Destination ?init"
    by (simp add: prefValue_def mkState_def)
  have before: "recommendations ?init \<noteq> []" "isGenerated ?init"
    by (simp_all add: mkState_def)
  note main = changePreference_resets_until_response [OF h, where g = Movie
      and apiKey = "Some ''key''" and entities = "[mkEntity ''kinkaku-ji'' 80 [''landmark'']]"
      and rand = "\<lambda>i. 1 / 2" and db = emptyStore]
  from main have "prefValue Destination ?changed = ''Kyoto''"
    by blast
  then have dest: "destination ?changed = ''Kyoto''"
    by (simp add: prefValue_def)
  have "Movie \<noteq> Destination"
    by simp
  with main have "prefValue Movie ?changed = prefValue Movie ?init"
    by blast
  moreover have "prefValue Movie ?init = ''Lost in Translation''"
    by (simp add: prefValue_def mkState_def)
  ultimately have mov: "movie ?changed = ''Lost in Translation''"
    by (simp add: prefValue_def)
  have others: "artist ?changed = []" "author ?changed = []"
    by (simp_all add: changePreference_def setPref_def resetEffect_def mkState_def)
  have guards: "hasRequiredInputs ?changed \<and> \<not> missingKey (Some ''key'')"
    by (simp add: hasRequiredInputs_def dest mov trim_def isWhitespace_def missingKey_def orElse_def)
  have ids: "map rec_id (mappedRecommendations (\<lambda>i. 1 / 2) [mkEntity ''kinkaku-ji'' 80 [''landmark'']])
      = [''kinkaku-ji'']"
    by (simp add: ids_mappedRecommendations sortEntities_def mkEntity_def)
  from main guards have req: "snd (beginGenerateRecommendations (Some ''key'') ?changed) = Some (requestOf ?changed)"
    and recs: "recommendations (fst (handleGenerateRecommendations (Some ''key'')
        (ApiEntities [mkEntity ''kinkaku-ji'' 80 [''landmark'']]) (\<lambda>i. 1 / 2) (?changed, emptyStore)))
       = mappedRecommendations (\<lambda>i. 1 / 2) [mkEntity ''kinkaku-ji'' 80 [''landmark'']]"
    by blast+
  from main have reset: "\<not> isGenerated ?changed" "recommendations ?changed = []" "itinerary ?changed = []"
    by blast+
  from h before dest mov reset guards show ?thesis
    by (simp add: req recs ids requestOf_def others)
qed

section \<open>Map location projector\<close>

lemma convertToMapLocation_coordinates:
  "coordinates (convertToMapLocation item ty) =
     (case (latitude item, longitude item) of
        (Some lat, Some lon) \<Rightarrow> if lat \<noteq> 0 \<and> lon \<noteq> 0 then (lon, lat) else defaultCoordinates
      | _ \<Rightarrow> defaultCoordinates)"
  by (simp add: convertToMapLocation_def Let_def)

text \<open>
  C9: a record that carries both a latitude and a longitude is placed at
  [longitude, latitude]. The source tests the two fields for truthiness, so a record on
  the equator (latitude 0, longitude 30) is placed at the default point instead.
\<close>

theorem convertToMapLocation_zero_latitude:
  "latitude (mkRec ''equator'' (Some 0) (Some 30)) = Some 0
   \<and> longitude (mkRec ''equator'' (Some 0) (Some 30)) = Some 30
   \<and> coordinates (convertToMapLocation (mkRec ''equator'' (Some 0) (Some 30)) recommendation_location)
       = (139.6917, 35.6895)
   \<and> coordinates (convertToMapLocation (mkRec ''equator'' (Some 0) (Some 30)) recommendation_location)
       \<noteq> (30, 0)"
  by (simp add: convertToMapLocation_coordinates mkRec_def defaultCoordinates_def)

section \<open>Persistence of recommendations\<close>

lemma stored_recommendations_addToItinerary_fold:
  "stored_recommendations (foldl (\<lambda>d item. kenshoDb_addToItinerary item d) db items)
     = stored_recommendations db"
  by (induction items arbitrary: db) (simp_all add: kenshoDb_addToItinerary_def)

lemma stored_recommendations_other_effects:
  "stored_recommendations (persistItineraryEffect st db) = stored_recommendations db"
  "stored_recommendations (persistSessionEffect st db) = stored_recommendations db"
  "stored_recommendations (persistPreferencesEffect st db) = stored_recommendations db"
  by (simp_all add: persistItineraryEffect_def persistSessionEffect_def
        persistPreferencesEffect_def stored_recommendations_addToItinerary_fold
        kenshoDb_saveSession_def kenshoDb_saveUserPreferences_def)

lemma persistRecommendationsEffect_empty:
  "recommendations st = [] \<Longrightarrow> persistRecommendationsEffect st db = db"
  by (simp add: persistRecommendationsEffect_def)

lemma recommendations_changePreference:
  "v \<noteq> prefValue f st \<Longrightarrow> recommendations (changePreference f v st) = []"
  by (cases f) (auto simp: changePreference_def setPref_def prefValue_def resetEffect_def Let_def)

text \<open>
  C10: the auto-persist effect leaves the store as it is when the recommendation list
  is empty, and writes it only when the list is non-empty; hence after a preference
  change has emptied the list and every persist effect has run, the stored
  recommendations are the ones stored before. A successful generation replaces them by
  the new list, and \<open>clearAllData\<close> removes them.
\<close>

theorem persisted_recommendations_survive_reset:
  "(recommendations st = [] \<longrightarrow> persistRecommendationsEffect st db = db)
   \<and> (stored_recommendations (persistRecommendationsEffect st db) \<noteq> stored_recommendations db
        \<longrightarrow> recommendations st \<noteq> [] \<and> \<not> isDbLoading st)
   \<and> (v \<noteq> prefValue f st \<longrightarrow>
        stored_recommendations (runPersistEffects (changePreference f v st) db)
          = stored_recommendations db)
   \<and> (hasRequiredInputs st \<and> \<not> missingKey apiKey \<longrightarrow>
        stored_recommendations
          (snd (handleGenerateRecommendations apiKey (ApiEntities entities) rand (st, db)))
          = mappedRecommendations rand entities)
   \<and> stored_recommendations (fst (snd (clearAllData (st, db, localStorage)))) = []"
proof -
  have a: "recommendations st = [] \<longrightarrow> persistRecommendationsEffect st db = db"
    by (simp add: persistRecommendationsEffect_empty)
  have b: "stored_recommendations (persistRecommendationsEffect st db) \<noteq> stored_recommendations db
        \<longrightarrow> recommendations st \<noteq> [] \<and> \<not> isDbLoading st"
    by (simp add: persistRecommendationsEffect_def)
  have c: "stored_recommendations (runPersistEffects (changePreference f v st) db)
          = stored_recommendations db" if "v \<noteq> prefValue f st"
    using recommendations_changePreference [OF that]
    by (simp add: runPersistEffects_def stored_recommendations_other_effects
          persistRecommendationsEffect_empty)
  have d: "stored_recommendations
          (snd (handleGenerateRecommendations apiKey (ApiEntities entities) rand (st, db)))
          = mappedRecommendations rand entities"
    if "hasRequiredInputs st \<and> \<not> missingKey apiKey"
    using that
    by (simp add: handleGenerateRecommendations_def Let_def kenshoDb_saveSession_def
          kenshoDb_saveRecommendations_def)
  have e: "stored_recommendations (fst (snd (clearAllData (st, db, localStorage)))) = []"
    by (simp add: clearAllData_def kenshoDb_clearAllData_def emptyStore_def)
  from a b c d e show ?thesis by blast
qed

theorem persisted_recommendations_survive_reset_witness:
  "''Kyoto'' \<noteq> prefValue Destination (mkState [mkRec ''a'' None None] [])
   \<and> \<not> isDbLoading (mkState [mkRec ''a'' None None] [])
   \<and> stored_recommendations
        (persistRecommendationsEffect (mkState [mkRec ''a'' None None] []) emptyStore)
       = [mkRec ''a'' None None]
   \<and> recommendations (changePreference Destination ''Kyoto'' (mkState [mkRec ''a'' None None] [])) = []
   \<and> stored_recommendations
        (runPersistEffects
           (changePreference Destination ''Kyoto'' (mkState [mkRec ''a'' None None] []))
           (persistRecommendationsEffect (mkState [mkRec ''a'' None None] []) emptyStore))
       = [mkRec ''a'' None None]"
proof -
  let ?st = "mkState [mkRec ''a'' None None] []"
  let ?db = "persistRecommendationsEffect ?st emptyStore"
  have h: "''Kyoto'' \<noteq> prefValue Destination ?st"
    by (simp add: prefValue_def mkState_def)
  have l: "\<not> isDbLoading ?st"
    by (simp add: mkState_def)
  have s: "stored_recommendations ?db = [mkRec ''a'' None None]"
    by (simp add: persistRecommendationsEffect_def mkState_def kenshoDb_saveRecommendations_def)
  have r: "recommendations (changePreference Destination ''Kyoto'' ?st) = []"
    by (simp add: changePreference_def setPref_def resetEffect_def mkState_def)
  from persisted_recommendations_survive_reset [where st = ?st and db = ?db
      and v = "''Kyoto''" and f = Destination] h
  have "stored_recommendations (runPersistEffects (changePreference Destination ''Kyoto'' ?st) ?db)
          = stored_recommendations ?db"
    by blast
  with h l s r show ?thesis by simp
qed

section \<open>Autoplan\<close>

lemma ids_putById: "rec_id ` set (putById item items) = insert (rec_id item) (rec_id ` set items)"
  by (induction items) auto

lemma ids_stored_fold:
  "rec_id ` set (stored_itinerary (foldl (\<lambda>d item. kenshoDb_addToItinerary item d) db items))
     = rec_id ` set items \<union> rec_id ` set (stored_itinerary db)"
  by (induction items arbitrary: db) (auto simp: kenshoDb_addToItinerary_def ids_putById)

lemma length_newItineraryItems: "length (newItineraryItems userDescription sel) = length sel"
  by (simp add: newItineraryItems_def)

lemma nth_newItineraryItems:
  "i < length sel \<Longrightarrow>
   newItineraryItems userDescription sel ! i
     = recommendation.extend (sel ! i)
         \<lparr>day = i div 2 + 1, item_notes = ''Auto-selected based on: '' @ userDescription, order = i\<rparr>"
  by (simp add: newItineraryItems_def)

lemma ids_newItineraryItems:
  "map rec_id (newItineraryItems userDescription sel) = map rec_id sel"
  by (rule nth_equalityI)
     (simp_all add: length_newItineraryItems nth_newItineraryItems recommendation.defs)

lemma truncate_newItineraryItems:
  "map recommendation.truncate (newItineraryItems userDescription sel) = sel"
  by (rule nth_equalityI)
     (simp_all add: length_newItineraryItems nth_newItineraryItems recommendation.defs)

lemma selectRecommendations_subset:
  "selectRecommendations recs ids = Inr sel \<Longrightarrow> set sel \<subseteq> set recs"
  by (auto simp: selectRecommendations_def split: json.splits if_splits)

lemma autoplanSelection_subset:
  "autoplanSelection JSON_parse aiResult recs = Inr sel \<Longrightarrow> set sel \<subseteq> set recs"
  by (auto simp: autoplanSelection_def split: ai_result.splits sum.splits
        dest: selectRecommendations_subset)

lemma handleAutoplan_success:
  assumes "trim (autoplanDescription st) \<noteq> []" "hasRequiredInputs st" "isGenerated st"
    "\<not> missingKey geminiApiKey"
    "autoplanSelection JSON_parse aiResult (recommendations st) = Inr sel" "sel \<noteq> []"
  shows "handleAutoplan geminiApiKey JSON_parse aiResult (st, db)
     = (st\<lparr>isAutoplanning := True, autoplanError := None,
            itinerary := newItineraryItems (autoplanDescription st) sel,
            autoplanDescription := [], isAutoplanning := False\<rparr>,
        foldl (\<lambda>d item. kenshoDb_addToItinerary item d) (kenshoDb_clearItinerary db)
          (newItineraryItems (autoplanDescription st) sel))"
proof -
  from assms(5,6) have "recommendations st \<noteq> []"
    using autoplanSelection_subset by fastforce
  with assms show ?thesis
    by (simp add: handleAutoplan_def Let_def)
qed

lemma handleAutoplan_no_matches:
  assumes "trim (autoplanDescription st) \<noteq> []" "hasRequiredInputs st" "isGenerated st"
    "recommendations st \<noteq> []" "\<not> missingKey geminiApiKey"
    "autoplanSelection JSON_parse aiResult (recommendations st) = Inr []"
  shows "handleAutoplan geminiApiKey JSON_parse aiResult (st, db)
     = (st\<lparr>isAutoplanning := True, autoplanError := None,
            autoplanError := Some noMatchingRecommendations, isAutoplanning := False\<rparr>, db)"
  using assms by (simp add: handleAutoplan_def Let_def)

lemma handleAutoplan_itinerary_cases:
  "itinerary (fst (handleAutoplan geminiApiKey JSON_parse aiResult (st, db))) = itinerary st
     \<and> snd (handleAutoplan geminiApiKey JSON_parse aiResult (st, db)) = db
   \<or> (\<exists>sel. sel \<noteq> [] \<and> autoplanSelection JSON_parse aiResult (recommendations st) = Inr sel
         \<and> itinerary (fst (handleAutoplan geminiApiKey JSON_parse aiResult (st, db)))
             = newItineraryItems (autoplanDescription st) sel)"
  by (auto simp: handleAutoplan_def Let_def split: sum.splits)


lemma scanQuoted_shape:
  "(case opened of None \<Rightarrow> True | Some acc \<Rightarrow> quote \<notin> set acc) \<Longrightarrow>
   m \<in> set (scanQuoted opened s) \<Longrightarrow>
   \<exists>body. m = quote # body @ [quote] \<and> body \<noteq> [] \<and> quote \<notin> set body"
proof (induction opened s rule: scanQuoted.induct)
  case (1 opened)
  then show ?case by simp
next
  case (2 c cs)
  then show ?case by (simp split: if_splits)
next
  case (3 acc c cs)
  show ?case
  proof (cases "c = quote")
    case False
    with 3 show ?thesis by simp
  next
    case True
    show ?thesis
    proof (cases "acc = []")
      case True
      with \<open>c = quote\<close> 3 show ?thesis by simp
    next
      case False
      with \<open>c = quote\<close> 3 show ?thesis by auto
    qed
  qed
qed

lemma matchQuoted_shape:
  "m \<in> set (matchQuoted response) \<Longrightarrow>
   \<exists>body. m = quote # body @ [quote] \<and> body \<noteq> [] \<and> quote \<notin> set body"
  unfolding matchQuoted_def by (rule scanQuoted_shape [where opened = None]) simp_all

lemma newItineraryItems_nonempty: "sel \<noteq> [] \<Longrightarrow> newItineraryItems d sel \<noteq> []"
  using length_newItineraryItems [of d sel] by fastforce

lemma set_putById: "set (putById item items) \<subseteq> insert item (set items)"
  by (induction items) auto

lemma set_stored_fold:
  "set (stored_itinerary (foldl (\<lambda>d item. kenshoDb_addToItinerary item d) db items))
     \<subseteq> set items \<union> set (stored_itinerary db)"
proof (induction items arbitrary: db)
  case Nil
  then show ?case by simp
next
  case (Cons item items)
  have "set (stored_itinerary (kenshoDb_addToItinerary item db))
      \<subseteq> insert item (set (stored_itinerary db))"
    by (simp add: kenshoDb_addToItinerary_def set_putById)
  with Cons [of "kenshoDb_addToItinerary item db"] show ?case
    by auto
qed

text \<open>On the success path the stored itinerary is cleared and then filled: every
  stored entry is one of the new items, and the stored ids are the selected ids.\<close>

lemma handleAutoplan_stored:
  assumes "trim (autoplanDescription st) \<noteq> []" "hasRequiredInputs st" "isGenerated st"
    "\<not> missingKey geminiApiKey"
    "autoplanSelection JSON_parse aiResult (recommendations st) = Inr sel" "sel \<noteq> []"
  shows "set (stored_itinerary (snd (handleAutoplan geminiApiKey JSON_parse aiResult (st, db))))
           \<subseteq> set (newItineraryItems (autoplanDescription st) sel)"
    and "rec_id ` set (stored_itinerary (snd (handleAutoplan geminiApiKey JSON_parse aiResult (st, db))))
           = rec_id ` set sel"
proof -
  note run = handleAutoplan_success [OF assms, of db]
  show "set (stored_itinerary (snd (handleAutoplan geminiApiKey JSON_parse aiResult (st, db))))
           \<subseteq> set (newItineraryItems (autoplanDescription st) sel)"
    using set_stored_fold [of "kenshoDb_clearItinerary db"
        "newItineraryItems (autoplanDescription st) sel"]
    by (simp add: run kenshoDb_clearItinerary_def)
  have "rec_id ` set (newItineraryItems (autoplanDescription st) sel) = rec_id ` set sel"
    using ids_newItineraryItems [of "autoplanDescription st" sel]
    by (metis set_map)
  then show "rec_id ` set (stored_itinerary (snd (handleAutoplan geminiApiKey JSON_parse aiResult (st, db))))
           = rec_id ` set sel"
    by (simp add: run ids_stored_fold kenshoDb_clearItinerary_def)
qed

text \<open>
  C5: when autoplan succeeds, whatever the itinerary was before, the new itinerary is
  the list of selected recommendations, in the order of the recommendation list, the one
  at position i with day i div 2 + 1, order i and the note ``Auto-selected based on:''
  followed by the user's description. The stored itinerary is replaced as well: every
  entry stored afterwards is one of the new items, and the stored ids are the selected
  ids, so no entry stored before remains.
\<close>

theorem autoplan_replaces_itinerary:
  assumes "trim (autoplanDescription st) \<noteq> []" and "hasRequiredInputs st" and "isGenerated st"
    and "\<not> missingKey geminiApiKey"
    and "autoplanSelection JSON_parse aiResult (recommendations st) = Inr sel" and "sel \<noteq> []"
  shows "itinerary (fst (handleAutoplan geminiApiKey JSON_parse aiResult (st, db)))
           = newItineraryItems (autoplanDescription st) sel
     \<and> map recommendation.truncate
          (itinerary (fst (handleAutoplan geminiApiKey JSON_parse aiResult (st, db)))) = sel
     \<and> set sel \<subseteq> set (recommendations st)
     \<and> (\<forall>i < length sel.
          day (itinerary (fst (handleAutoplan geminiApiKey JSON_parse aiResult (st, db))) ! i)
            = i div 2 + 1
          \<and> order (itinerary (fst (handleAutoplan geminiApiKey JSON_parse aiResult (st, db))) ! i)
            = i
          \<and> item_notes (itinerary (fst (handleAutoplan geminiApiKey JSON_parse aiResult (st, db))) ! i)
            = ''Auto-selected based on: '' @ autoplanDescription st)
     \<and> set (stored_itinerary (snd (handleAutoplan geminiApiKey JSON_parse aiResult (st, db))))
          \<subseteq> set (itinerary (fst (handleAutoplan geminiApiKey JSON_parse aiResult (st, db))))
     \<and> rec_id ` set (stored_itinerary (snd (handleAutoplan geminiApiKey JSON_parse aiResult (st, db))))
          = rec_id ` set sel"
proof -
  note run = handleAutoplan_success [OF assms, of db]
  have it: "itinerary (fst (handleAutoplan geminiApiKey JSON_parse aiResult (st, db)))
           = newItineraryItems (autoplanDescription st) sel"
    by (simp add: run)
  note stored = handleAutoplan_stored [OF assms, of db]
  have fields: "day (newItineraryItems (autoplanDescription st) sel ! i) = i div 2 + 1
      \<and> order (newItineraryItems (autoplanDescription st) sel ! i) = i
      \<and> item_notes (newItineraryItems (autoplanDescription st) sel ! i)
          = ''Auto-selected based on: '' @ autoplanDescription st"
    if "i < length sel" for i
    using that by (simp add: nth_newItineraryItems recommendation.defs)
  from it fields stored autoplanSelection_subset [OF assms(5)] show ?thesis
    by (simp add: truncate_newItineraryItems)
qed


theorem autoplan_replaces_itinerary_witness:
  "map rec_id (itinerary (mkState exampleRecs [exampleOldItem])) = [''z'']
   \<and> map rec_id (itinerary (fst (handleAutoplan (Some ''key'') (\<lambda>s. None) (AiText exampleReply)
          (mkState exampleRecs [exampleOldItem],
           kenshoDb_addToItinerary exampleOldItem emptyStore)))) = [''a'', ''c'']
   \<and> map day (itinerary (fst (handleAutoplan (Some ''key'') (\<lambda>s. None) (AiText exampleReply)
          (mkState exampleRecs [exampleOldItem],
           kenshoDb_addToItinerary exampleOldItem emptyStore)))) = [1, 1]
   \<and> map order (itinerary (fst (handleAutoplan (Some ''key'') (\<lambda>s. None) (AiText exampleReply)
          (mkState exampleRecs [exampleOldItem],
           kenshoDb_addToItinerary exampleOldItem emptyStore)))) = [0, 1]
   \<and> map item_notes (itinerary (fst (handleAutoplan (Some ''key'') (\<lambda>s. None) (AiText exampleReply)
          (mkState exampleRecs [exampleOldItem],
           kenshoDb_addToItinerary exampleOldItem emptyStore))))
       = [''Auto-selected based on: quiet jazz bars'', ''Auto-selected based on: quiet jazz bars'']
   \<and> map rec_id (stored_itinerary (kenshoDb_addToItinerary exampleOldItem emptyStore)) = [''z'']
   \<and> rec_id ` set (stored_itinerary (snd (handleAutoplan (Some ''key'') (\<lambda>s. None) (AiText exampleReply)
          (mkState exampleRecs [exampleOldItem],
           kenshoDb_addToItinerary exampleOldItem emptyStore)))) = {''a'', ''c''}
   \<and> exampleOldItem \<notin> set (stored_itinerary (snd (handleAutoplan (Some ''key'') (\<lambda>s. None)
          (AiText exampleReply)
          (mkState exampleRecs [exampleOldItem],
           kenshoDb_addToItinerary exampleOldItem emptyStore))))"
proof -
  let ?st = "mkState exampleRecs [exampleOldItem]"
  let ?db = "kenshoDb_addToItinerary exampleOldItem emptyStore"
  let ?sel = "[mkRec ''a'' None None, mkRec ''c'' None None]"
  have old: "map rec_id (itinerary ?st) = [''z'']"
    by (simp add: mkState_def exampleOldItem_def recommendation.defs mkRec_def)
  have desc: "autoplanDescription ?st = ''quiet jazz bars''"
    by (simp add: mkState_def)
  have g1: "trim (autoplanDescription ?st) \<noteq> []"
    by (simp add: desc trim_def isWhitespace_def)
  have g2: "hasRequiredInputs ?st"
    by (simp add: hasRequiredInputs_def mkState_def trim_def isWhitespace_def)
  have g3: "isGenerated ?st"
    by (simp add: mkState_def)
  have g4: "\<not> missingKey (Some ''key'')"
    by (simp add: missingKey_def orElse_def)
  have m: "matchQuoted exampleReply = [[quote] @ ''c'' @ [quote], [quote] @ ''a'' @ [quote]]"
    by (simp add: matchQuoted_def exampleReply_def quote_def)
  have g5: "autoplanSelection (\<lambda>s. None) (AiText exampleReply) (recommendations ?st) = Inr ?sel"
    by (simp add: autoplanSelection_def parseSelectedIds_def m selectRecommendations_def)
       (simp add: mkState_def exampleRecs_def mkRec_def quote_def)
  have g6: "?sel \<noteq> []" by simp
  note main = autoplan_replaces_itinerary [OF g1 g2 g3 g4 g5 g6, of ?db]
  from main have it: "itinerary (fst (handleAutoplan (Some ''key'') (\<lambda>s. None) (AiText exampleReply) (?st, ?db)))
      = newItineraryItems ''quiet jazz bars'' ?sel"
    by (simp add: desc)
  have items: "newItineraryItems ''quiet jazz bars'' ?sel
      = [recommendation.extend (mkRec ''a'' None None)
           \<lparr>day = 1, item_notes = ''Auto-selected based on: quiet jazz bars'', order = 0\<rparr>,
         recommendation.extend (mkRec ''c'' None None)
           \<lparr>day = 1, item_notes = ''Auto-selected based on: quiet jazz bars'', order = 1\<rparr>]"
    by (simp add: newItineraryItems_def upt_rec)
  have ids: "rec_id (mkRec ''a'' None None) = ''a''" "rec_id (mkRec ''c'' None None) = ''c''"
    by (simp_all add: mkRec_def)
  have oldStored: "map rec_id (stored_itinerary ?db) = [''z'']"
    by (simp add: kenshoDb_addToItinerary_def emptyStore_def exampleOldItem_def
          recommendation.defs mkRec_def)
  from main have storedIds: "rec_id ` set (stored_itinerary (snd (handleAutoplan (Some ''key'')
      (\<lambda>s. None) (AiText exampleReply) (?st, ?db)))) = rec_id ` set ?sel"
    by blast
  have zid: "rec_id exampleOldItem = ''z''"
    by (simp add: exampleOldItem_def recommendation.defs mkRec_def)
  have gone: "exampleOldItem \<notin> set (stored_itinerary (snd (handleAutoplan (Some ''key'')
      (\<lambda>s. None) (AiText exampleReply) (?st, ?db))))"
  proof
    assume "exampleOldItem \<in> set (stored_itinerary (snd (handleAutoplan (Some ''key'')
      (\<lambda>s. None) (AiText exampleReply) (?st, ?db))))"
    then have "rec_id exampleOldItem \<in> rec_id ` set ?sel"
      using storedIds by blast
    then show False
      by (simp add: zid ids)
  qed
  from gone show ?thesis
    by (simp add: old it items recommendation.defs ids oldStored storedIds)
qed

text \<open>
  C6: the reply is first given to the JSON parser; only when that throws are the quoted
  substrings taken as the candidate ids, and a reply without any is an error. When no
  current recommendation matches, the error ``No matching recommendations found'' is
  set and neither the itinerary nor the store changes; autoplan never replaces a
  non-empty itinerary by an empty one.
\<close>

theorem autoplan_parsing_and_no_matches:
  "(JSON_parse response = Some (JArr (map JStr ids)) \<longrightarrow>
      autoplanSelection JSON_parse (AiText response) recs
        = Inr (filter (\<lambda>r. rec_id r \<in> set ids) recs))
   \<and> (JSON_parse response = None \<and> matchQuoted response \<noteq> [] \<longrightarrow>
      autoplanSelection JSON_parse (AiText response) recs
        = Inr (filter (\<lambda>r. rec_id r \<in> set (map (filter (\<lambda>c. c \<noteq> quote)) (matchQuoted response)))
                 recs))
   \<and> (JSON_parse response = None \<and> matchQuoted response = [] \<longrightarrow>
      autoplanSelection JSON_parse (AiText response) recs = Inl ''Could not parse AI response'')
   \<and> (trim (autoplanDescription st) \<noteq> [] \<and> hasRequiredInputs st \<and> isGenerated st
        \<and> recommendations st \<noteq> [] \<and> \<not> missingKey geminiApiKey
        \<and> autoplanSelection JSON_parse aiResult (recommendations st) = Inr [] \<longrightarrow>
      autoplanError (fst (handleAutoplan geminiApiKey JSON_parse aiResult (st, db)))
        = Some noMatchingRecommendations
      \<and> itinerary (fst (handleAutoplan geminiApiKey JSON_parse aiResult (st, db))) = itinerary st
      \<and> snd (handleAutoplan geminiApiKey JSON_parse aiResult (st, db)) = db)
   \<and> (itinerary st \<noteq> [] \<longrightarrow>
      itinerary (fst (handleAutoplan geminiApiKey JSON_parse aiResult (st, db))) \<noteq> [])"
proof -
  have a: "autoplanSelection JSON_parse (AiText response) recs
        = Inr (filter (\<lambda>r. rec_id r \<in> set ids) recs)"
    if "JSON_parse response = Some (JArr (map JStr ids))"
    using that
    by (auto simp: autoplanSelection_def parseSelectedIds_def selectRecommendations_def
          intro: filter_cong)
  have b: "autoplanSelection JSON_parse (AiText response) recs
        = Inr (filter (\<lambda>r. rec_id r \<in> set (map (filter (\<lambda>c. c \<noteq> quote)) (matchQuoted response)))
                 recs)"
    if "JSON_parse response = None \<and> matchQuoted response \<noteq> []"
  proof -
    from that obtain m ms where ms: "matchQuoted response = m # ms"
      by (cases "matchQuoted response") auto
    have sel: "autoplanSelection JSON_parse (AiText response) recs
        = Inr (filter (\<lambda>r. JStr (rec_id r)
                  \<in> set (map (\<lambda>m. JStr (filter (\<lambda>c. c \<noteq> quote) m)) (matchQuoted response))) recs)"
      using that by (simp add: autoplanSelection_def parseSelectedIds_def selectRecommendations_def ms)
    have "filter (\<lambda>r. JStr (rec_id r) \<in> set (map (\<lambda>m. JStr (filter (\<lambda>c. c \<noteq> quote) m)) L)) recs
        = filter (\<lambda>r. rec_id r \<in> set (map (filter (\<lambda>c. c \<noteq> quote)) L)) recs" for L
      by (rule filter_cong) auto
    with sel show ?thesis by simp
  qed
  have c: "autoplanSelection JSON_parse (AiText response) recs = Inl ''Could not parse AI response''"
    if "JSON_parse response = None \<and> matchQuoted response = []"
    using that by (simp add: autoplanSelection_def parseSelectedIds_def)
  have d: "autoplanError (fst (handleAutoplan geminiApiKey JSON_parse aiResult (st, db)))
        = Some noMatchingRecommendations
      \<and> itinerary (fst (handleAutoplan geminiApiKey JSON_parse aiResult (st, db))) = itinerary st
      \<and> snd (handleAutoplan geminiApiKey JSON_parse aiResult (st, db)) = db"
    if "trim (autoplanDescription st) \<noteq> [] \<and> hasRequiredInputs st \<and> isGenerated st
        \<and> recommendations st \<noteq> [] \<and> \<not> missingKey geminiApiKey
        \<and> autoplanSelection JSON_parse aiResult (recommendations st) = Inr []"
    using that by (simp add: handleAutoplan_no_matches)
  have e: "itinerary (fst (handleAutoplan geminiApiKey JSON_parse aiResult (st, db))) \<noteq> []"
    if "itinerary st \<noteq> []"
    using handleAutoplan_itinerary_cases [of geminiApiKey JSON_parse aiResult st db] that
      newItineraryItems_nonempty
    by auto
  from a b c d e show ?thesis by blast
qed


theorem autoplan_parsing_and_no_matches_witness:
  "matchQuoted exampleMissReply = [[quote] @ ''x1'' @ [quote]]
   \<and> autoplanSelection (\<lambda>s. None) (AiText exampleMissReply) exampleRecs = Inr []
   \<and> autoplanError (fst (handleAutoplan (Some ''key'') (\<lambda>s. None) (AiText exampleMissReply)
        (mkState exampleRecs [exampleOldItem], emptyStore))) = Some noMatchingRecommendations
   \<and> itinerary (fst (handleAutoplan (Some ''key'') (\<lambda>s. None) (AiText exampleMissReply)
        (mkState exampleRecs [exampleOldItem], emptyStore))) = [exampleOldItem]
   \<and> snd (handleAutoplan (Some ''key'') (\<lambda>s. None) (AiText exampleMissReply)
        (mkState exampleRecs [exampleOldItem], emptyStore)) = emptyStore"
proof -
  let ?st = "mkState exampleRecs [exampleOldItem]"
  note main = autoplan_parsing_and_no_matches [where JSON_parse = "\<lambda>s. None"
      and response = exampleMissReply and recs = exampleRecs and st = ?st
      and aiResult = "AiText exampleMissReply" and geminiApiKey = "Some ''key''"
      and db = emptyStore]
  have m: "matchQuoted exampleMissReply = [[quote] @ ''x1'' @ [quote]]"
    by (simp add: matchQuoted_def exampleMissReply_def quote_def)
  from main m have "autoplanSelection (\<lambda>s. None) (AiText exampleMissReply) exampleRecs
      = Inr (filter (\<lambda>r. rec_id r \<in> set (map (filter (\<lambda>c. c \<noteq> quote)) [[quote] @ ''x1'' @ [quote]]))
               exampleRecs)"
    by simp
  then have sel: "autoplanSelection (\<lambda>s. None) (AiText exampleMissReply) exampleRecs = Inr []"
    by (simp add: exampleRecs_def mkRec_def quote_def)
  have recs: "recommendations ?st = exampleRecs" "itinerary ?st = [exampleOldItem]"
    by (simp_all add: mkState_def)
  have g: "trim (autoplanDescription ?st) \<noteq> [] \<and> hasRequiredInputs ?st \<and> isGenerated ?st
        \<and> recommendations ?st \<noteq> [] \<and> \<not> missingKey (Some ''key'')"
    by (simp add: hasRequiredInputs_def mkState_def trim_def isWhitespace_def missingKey_def
          orElse_def exampleRecs_def)
  from main g sel recs show ?thesis
    using m by simp
qed

section \<open>Migration\<close>

lemma fold_add_frame:
  "stored_preferences (foldl (\<lambda>d item. kenshoDb_addToItinerary item d) db items) = stored_preferences db"
  "stored_recommendations (foldl (\<lambda>d item. kenshoDb_addToItinerary item d) db items) = stored_recommendations db"
  "stored_session (foldl (\<lambda>d item. kenshoDb_addToItinerary item d) db items) = stored_session db"
  by (induction items arbitrary: db) (simp_all add: kenshoDb_addToItinerary_def)

lemmas store_ops = kenshoDb_saveUserPreferences_def kenshoDb_saveRecommendations_def
  kenshoDb_saveSession_def

lemma migratePreferences_frame:
  "stored_recommendations (migratePreferences h ls db) = stored_recommendations db"
  "stored_itinerary (migratePreferences h ls db) = stored_itinerary db"
  "stored_session (migratePreferences h ls db) = stored_session db"
  "preferencesCount h \<noteq> 0 \<Longrightarrow> migratePreferences h ls db = db"
  by (simp_all add: migratePreferences_def Let_def store_ops)

lemma migrateRecommendations_frame:
  "stored_preferences (migrateRecommendations parseRecs h ls db) = stored_preferences db"
  "stored_itinerary (migrateRecommendations parseRecs h ls db) = stored_itinerary db"
  "stored_session (migrateRecommendations parseRecs h ls db) = stored_session db"
  "recommendationsCount h \<noteq> 0 \<Longrightarrow> migrateRecommendations parseRecs h ls db = db"
  by (simp_all add: migrateRecommendations_def Let_def store_ops split: option.splits)

lemma migrateItinerary_frame:
  "stored_preferences (migrateItinerary parseItems h ls db) = stored_preferences db"
  "stored_recommendations (migrateItinerary parseItems h ls db) = stored_recommendations db"
  "stored_session (migrateItinerary parseItems h ls db) = stored_session db"
  "itineraryCount h \<noteq> 0 \<Longrightarrow> migrateItinerary parseItems h ls db = db"
  by (simp_all add: migrateItinerary_def Let_def fold_add_frame split: option.splits)

lemma migrateSession_frame:
  "stored_preferences (migrateSession h ls db) = stored_preferences db"
  "stored_recommendations (migrateSession h ls db) = stored_recommendations db"
  "stored_itinerary (migrateSession h ls db) = stored_itinerary db"
  "sessionExists h \<Longrightarrow> migrateSession h ls db = db"
  by (simp_all add: migrateSession_def Let_def store_ops)

lemmas migrate_frames = migratePreferences_frame migrateRecommendations_frame
  migrateItinerary_frame migrateSession_frame

lemma stats_populated:
  "stored_preferences db \<noteq> None \<Longrightarrow> preferencesCount (kenshoDb_getStorageStats db) \<noteq> 0"
  "stored_recommendations db \<noteq> [] \<Longrightarrow> recommendationsCount (kenshoDb_getStorageStats db) \<noteq> 0"
  "stored_itinerary db \<noteq> [] \<Longrightarrow> itineraryCount (kenshoDb_getStorageStats db) \<noteq> 0"
  "stored_session db \<noteq> None \<Longrightarrow> sessionExists (kenshoDb_getStorageStats db)"
  by (auto simp: kenshoDb_getStorageStats_def split: option.splits)

lemma migrate_keeps_preferences:
  "stored_preferences db \<noteq> None \<Longrightarrow>
   stored_preferences (migrateFromLocalStorage parseRecs parseItems ls db) = stored_preferences db"
  by (simp add: migrateFromLocalStorage_def Let_def migrate_frames stats_populated)

lemma migrate_keeps_recommendations:
  "stored_recommendations db \<noteq> [] \<Longrightarrow>
   stored_recommendations (migrateFromLocalStorage parseRecs parseItems ls db) = stored_recommendations db"
  by (simp add: migrateFromLocalStorage_def Let_def migrate_frames stats_populated)

lemma migrate_keeps_itinerary:
  "stored_itinerary db \<noteq> [] \<Longrightarrow>
   stored_itinerary (migrateFromLocalStorage parseRecs parseItems ls db) = stored_itinerary db"
  by (simp add: migrateFromLocalStorage_def Let_def migrate_frames stats_populated)

lemma migrate_keeps_session:
  "stored_session db \<noteq> None \<Longrightarrow>
   stored_session (migrateFromLocalStorage parseRecs parseItems ls db) = stored_session db"
  by (simp add: migrateFromLocalStorage_def Let_def migrate_frames stats_populated)

lemma migrate_populated:
  "stored_preferences db \<noteq> None \<Longrightarrow> stored_recommendations db \<noteq> [] \<Longrightarrow>
   stored_itinerary db \<noteq> [] \<Longrightarrow> stored_session db \<noteq> None \<Longrightarrow>
   migrateFromLocalStorage parseRecs parseItems ls db = db"
  by (simp add: migrateFromLocalStorage_def Let_def migrate_frames stats_populated)

lemma migrateRecommendations_malformed:
  "ls ''kensho-recommendations'' = Some raw \<Longrightarrow> parseRecs raw = None \<Longrightarrow>
   migrateRecommendations parseRecs h ls db = db"
  by (simp add: migrateRecommendations_def)

lemma migrateItinerary_malformed:
  "ls ''kensho-itinerary'' = Some raw \<Longrightarrow> parseItems raw = None \<Longrightarrow>
   migrateItinerary parseItems h ls db = db"
  by (simp add: migrateItinerary_def)

lemma other_keys_recommendations:
  "migratePreferences h (ls(''kensho-recommendations'' := v)) d = migratePreferences h ls d"
  "migrateItinerary parseItems h (ls(''kensho-recommendations'' := v)) d = migrateItinerary parseItems h ls d"
  "migrateSession h (ls(''kensho-recommendations'' := v)) d = migrateSession h ls d"
  by (simp_all add: migratePreferences_def migrateItinerary_def migrateSession_def)

lemma other_keys_itinerary:
  "migratePreferences h (ls(''kensho-itinerary'' := v)) d = migratePreferences h ls d"
  "migrateRecommendations parseRecs h (ls(''kensho-itinerary'' := v)) d = migrateRecommendations parseRecs h ls d"
  "migrateSession h (ls(''kensho-itinerary'' := v)) d = migrateSession h ls d"
  by (simp_all add: migratePreferences_def migrateRecommendations_def migrateSession_def)

lemma migrate_malformed_recommendations:
  assumes "ls ''kensho-recommendations'' = Some raw" "parseRecs raw = None"
  shows "migrateFromLocalStorage parseRecs parseItems ls db
     = migrateFromLocalStorage parseRecs parseItems (ls(''kensho-recommendations'' := None)) db"
proof -
  have "migrateRecommendations parseRecs h ls d
      = migrateRecommendations parseRecs h (ls(''kensho-recommendations'' := None)) d" for h d
    using assms by (simp add: migrateRecommendations_def)
  then show ?thesis
    by (simp only: migrateFromLocalStorage_def Let_def other_keys_recommendations)
qed

lemma migrate_malformed_itinerary:
  assumes "ls ''kensho-itinerary'' = Some raw" "parseItems raw = None"
  shows "migrateFromLocalStorage parseRecs parseItems ls db
     = migrateFromLocalStorage parseRecs parseItems (ls(''kensho-itinerary'' := None)) db"
proof -
  have "migrateItinerary parseItems h ls d
      = migrateItinerary parseItems h (ls(''kensho-itinerary'' := None)) d" for h d
    using assms by (simp add: migrateItinerary_def)
  then show ?thesis
    by (simp only: migrateFromLocalStorage_def Let_def other_keys_itinerary)
qed


text \<open>
  C8: migration fills only empty kinds. The block of a kind whose count is not zero
  (whose session exists) performs no write; so a kind the Local Store already holds
  (preferences, recommendations, itinerary, session) is the same after migration, and a
  store that holds all four is returned unchanged. A legacy recommendation or itinerary
  value that does not parse is dropped: migration then does to every kind what it does
  when that legacy key is absent.
\<close>

theorem migration_fills_only_empty_kinds:
  "(preferencesCount h \<noteq> 0 \<longrightarrow> migratePreferences h ls d = d)
   \<and> (recommendationsCount h \<noteq> 0 \<longrightarrow> migrateRecommendations parseRecs h ls d = d)
   \<and> (itineraryCount h \<noteq> 0 \<longrightarrow> migrateItinerary parseItems h ls d = d)
   \<and> (sessionExists h \<longrightarrow> migrateSession h ls d = d)
   \<and> (stored_preferences db \<noteq> None \<longrightarrow>
      stored_preferences (migrateFromLocalStorage parseRecs parseItems ls db) = stored_preferences db)
   \<and> (stored_recommendations db \<noteq> [] \<longrightarrow>
      stored_recommendations (migrateFromLocalStorage parseRecs parseItems ls db)
        = stored_recommendations db)
   \<and> (stored_itinerary db \<noteq> [] \<longrightarrow>
      stored_itinerary (migrateFromLocalStorage parseRecs parseItems ls db) = stored_itinerary db)
   \<and> (stored_session db \<noteq> None \<longrightarrow>
      stored_session (migrateFromLocalStorage parseRecs parseItems ls db) = stored_session db)
   \<and> (stored_preferences db \<noteq> None \<and> stored_recommendations db \<noteq> []
        \<and> stored_itinerary db \<noteq> [] \<and> stored_session db \<noteq> None \<longrightarrow>
      migrateFromLocalStorage parseRecs parseItems ls db = db)
   \<and> (ls ''kensho-recommendations'' = Some raw \<and> parseRecs raw = None \<longrightarrow>
      migrateFromLocalStorage parseRecs parseItems ls db
        = migrateFromLocalStorage parseRecs parseItems (ls(''kensho-recommendations'' := None)) db)
   \<and> (ls ''kensho-itinerary'' = Some raw \<and> parseItems raw = None \<longrightarrow>
      migrateFromLocalStorage parseRecs parseItems ls db
        = migrateFromLocalStorage parseRecs parseItems (ls(''kensho-itinerary'' := None)) db)"
  using migrate_keeps_preferences [of db parseRecs parseItems ls]
    migrate_keeps_recommendations [of db parseRecs parseItems ls]
    migrate_keeps_itinerary [of db parseRecs parseItems ls]
    migrate_keeps_session [of db parseRecs parseItems ls]
    migrate_populated [of db parseRecs parseItems ls]
    migrate_malformed_recommendations [of ls raw parseRecs parseItems db]
    migrate_malformed_itinerary [of ls raw parseItems parseRecs db]
    migratePreferences_frame(4) [of h ls d]
    migrateRecommendations_frame(4) [of h parseRecs ls d]
    migrateItinerary_frame(4) [of h parseItems ls d]
    migrateSession_frame(4) [of h ls d]
  by blast

theorem migration_fills_only_empty_kinds_witness:
  "exampleLegacy ''kensho-recommendations'' = Some ''[{broken''
   \<and> exampleParseRecs ''[{broken'' = None
   \<and> migrateFromLocalStorage exampleParseRecs exampleParseItems exampleLegacy emptyStore
       = \<lparr>stored_preferences = Some \<lparr>pref_destination = ''Tokyo'', pref_movie = [],
                                      pref_artist = [], pref_author = []\<rparr>,
          stored_recommendations = [],
          stored_itinerary = [exampleOldItem],
          stored_session = Some True\<rparr>
   \<and> stored_recommendations (kenshoDb_saveRecommendations exampleRecs emptyStore) \<noteq> []
   \<and> (exampleLegacy(''kensho-recommendations'' \<mapsto> ''recs'')) ''kensho-recommendations'' = Some ''recs''
   \<and> exampleParseRecs ''recs'' = Some [mkRec ''n'' None None]
   \<and> stored_recommendations
        (migrateFromLocalStorage exampleParseRecs exampleParseItems
           (exampleLegacy(''kensho-recommendations'' \<mapsto> ''recs''))
           (kenshoDb_saveRecommendations exampleRecs emptyStore))
       = exampleRecs"
proof -
  have bad: "exampleLegacy ''kensho-recommendations'' = Some ''[{broken''"
    by (simp add: exampleLegacy_def)
  have p: "exampleParseRecs ''[{broken'' = None" "exampleParseRecs ''recs'' = Some [mkRec ''n'' None None]"
    by (simp_all add: exampleParseRecs_def)
  from migration_fills_only_empty_kinds [where ls = exampleLegacy and raw = "''[{broken''"
      and parseRecs = exampleParseRecs and parseItems = exampleParseItems and db = emptyStore]
    bad p
  have "migrateFromLocalStorage exampleParseRecs exampleParseItems exampleLegacy emptyStore
      = migrateFromLocalStorage exampleParseRecs exampleParseItems
          (exampleLegacy(''kensho-recommendations'' := None)) emptyStore"
    by blast
  also have "\<dots> = \<lparr>stored_preferences = Some \<lparr>pref_destination = ''Tokyo'', pref_movie = [],
                                      pref_artist = [], pref_author = []\<rparr>,
          stored_recommendations = [],
          stored_itinerary = [exampleOldItem],
          stored_session = Some True\<rparr>"
    by (simp add: migrateFromLocalStorage_def migratePreferences_def migrateRecommendations_def
          migrateItinerary_def migrateSession_def Let_def exampleLegacy_def emptyStore_def
          kenshoDb_getStorageStats_def kenshoDb_saveUserPreferences_def kenshoDb_saveSession_def
          kenshoDb_addToItinerary_def truthy_def orElse_def exampleParseItems_def)
  finally have run: "migrateFromLocalStorage exampleParseRecs exampleParseItems exampleLegacy emptyStore
      = \<lparr>stored_preferences = Some \<lparr>pref_destination = ''Tokyo'', pref_movie = [],
                                      pref_artist = [], pref_author = []\<rparr>,
          stored_recommendations = [],
          stored_itinerary = [exampleOldItem],
          stored_session = Some True\<rparr>" .
  have pop: "stored_recommendations (kenshoDb_saveRecommendations exampleRecs emptyStore) \<noteq> []"
    by (simp add: kenshoDb_saveRecommendations_def exampleRecs_def)
  from migration_fills_only_empty_kinds [where db = "kenshoDb_saveRecommendations exampleRecs emptyStore"
      and ls = "exampleLegacy(''kensho-recommendations'' \<mapsto> ''recs'')"
      and parseRecs = exampleParseRecs and parseItems = exampleParseItems] pop
  have "stored_recommendations
        (migrateFromLocalStorage exampleParseRecs exampleParseItems
           (exampleLegacy(''kensho-recommendations'' \<mapsto> ''recs''))
           (kenshoDb_saveRecommendations exampleRecs emptyStore))
       = stored_recommendations (kenshoDb_saveRecommendations exampleRecs emptyStore)"
    by blast
  then have kept: "stored_recommendations
        (migrateFromLocalStorage exampleParseRecs exampleParseItems
           (exampleLegacy(''kensho-recommendations'' \<mapsto> ''recs''))
           (kenshoDb_saveRecommendations exampleRecs emptyStore))
       = exampleRecs"
    by (simp add: kenshoDb_saveRecommendations_def)
  from bad p run pop kept show ?thesis by simp
qed

end
